theory Spec2Isabelle
  imports Main "HOL-Library.Sublist"
begin

section \<open>Python values, exceptions and data frames\<close>

text \<open>
  The exceptions the embedded code can raise. \<open>Collaborator\<close> carries the message of an
  exception raised inside one of the external helpers (Metashape, ASP, demcoreg, and the
  \<open>hsfm\<close> functions whose code is not among the embedded sources).
\<close>

datatype error =
    IndexError
  | UnboundLocalError
  | ValueError
  | TypeError
  | AttributeError
  | FileNotFoundError
  | Collaborator string

text \<open>
  A pandas data frame is a list of named columns, in column order. Floating-point numbers
  are kept abstract (the type parameter \<open>'n\<close>): the orchestration code never computes
  with them, it only hands them on.
\<close>

datatype 'n cell = CInt int | CNum 'n | CStr string

type_synonym 'n dataframe = "(string \<times> 'n cell list) list"

text \<open>The Python values that travel through the pipeline object and its helpers.\<close>

datatype 'n val =
    VNone
  | VBool bool
  | VInt int
  | VNum 'n
  | VStr string
  | VDf "'n dataframe"
  | VTuple "'n val list"

definition nrows :: "'n dataframe \<Rightarrow> nat" where
  "nrows df = (case df of [] \<Rightarrow> 0 | (c, vs) # _ \<Rightarrow> length vs)"

text \<open>
  \<open>df[c] = v\<close> with a scalar \<open>v\<close>: an existing column is overwritten in place, a new
  column is appended after the others.
\<close>

definition set_col :: "string \<Rightarrow> 'n cell \<Rightarrow> 'n dataframe \<Rightarrow> 'n dataframe" where
  "set_col c v df =
     (if c \<in> fst ` set df
      then map (\<lambda>(k, vs). if k = c then (k, replicate (length vs) v) else (k, vs)) df
      else df @ [(c, replicate (nrows df) v)])"

text \<open>
  Tuple unpacking \<open>a, b = v\<close> and \<open>a, b, c = v\<close>: any iterable of the right length
  unpacks (a string yields its characters, a data frame its column names), a wrong length
  raises \<open>ValueError\<close>, a value that is not iterable raises \<open>TypeError\<close>.
\<close>

fun iterate :: "'n val \<Rightarrow> error + 'n val list" where
  "iterate (VTuple vs) = Inr vs"
| "iterate (VStr s) = Inr (map (\<lambda>c. VStr [c]) s)"
| "iterate (VDf df) = Inr (map (\<lambda>(c, vs). VStr c) df)"
| "iterate _ = Inl TypeError"

definition unpack2 :: "'n val \<Rightarrow> error + ('n val \<times> 'n val)" where
  "unpack2 v =
     (case iterate v of
        Inl e \<Rightarrow> Inl e
      | Inr [a, b] \<Rightarrow> Inr (a, b)
      | Inr _ \<Rightarrow> Inl ValueError)"

definition unpack3 :: "'n val \<Rightarrow> error + ('n val \<times> 'n val \<times> 'n val)" where
  "unpack3 v =
     (case iterate v of
        Inl e \<Rightarrow> Inl e
      | Inr [a, b, c] \<Rightarrow> Inr (a, b, c)
      | Inr _ \<Rightarrow> Inl ValueError)"

text \<open>\<open>"EPSG:" + v\<close>: only a string can be appended to a string.\<close>

definition str_concat :: "string \<Rightarrow> 'n val \<Rightarrow> error + string" where
  "str_concat s v = (case v of VStr t \<Rightarrow> Inr (s @ t) | _ \<Rightarrow> Inl TypeError)"

text \<open>\<open>v.to_csv(...)\<close> needs \<open>v\<close> to be a data frame.\<close>

definition as_dataframe :: "'n val \<Rightarrow> error + 'n dataframe" where
  "as_dataframe v = (case v of VDf df \<Rightarrow> Inr df | _ \<Rightarrow> Inl AttributeError)"

section \<open>Paths\<close>

text \<open>\<open>os.path.join(a, b)\<close> of \<open>posixpath\<close>.\<close>

definition path_join :: "string \<Rightarrow> string \<Rightarrow> string" where
  "path_join a b =
     (if b \<noteq> [] \<and> hd b = CHR ''/'' then b
      else if a = [] \<or> last a = CHR ''/'' then a @ b
      else a @ ''/'' @ b)"

text \<open>\<open>str(i)\<close> for a non-negative integer: its decimal digits, no leading zero.\<close>

definition digit_char :: "nat \<Rightarrow> char" where
  "digit_char d = ''0123456789'' ! d"

function str_nat :: "nat \<Rightarrow> string" where
  "str_nat n = (if n < 10 then [digit_char n] else str_nat (n div 10) @ [digit_char (n mod 10)])"
  by pat_completeness auto
termination
  by (relation "measure id") auto

declare str_nat.simps [simp del]

section \<open>\<open>hsfm/batch/batch.py\<close>: headings along a flight line\<close>

text \<open>
  \<open>lons[i]\<close> on a numpy array with a non-negative index: out of range raises
  \<open>IndexError\<close>.
\<close>

definition np_get :: "'a list \<Rightarrow> nat \<Rightarrow> error + 'a" where
  "np_get xs i = (if i < length xs then Inr (xs ! i) else Inl IndexError)"

text \<open>
  The body of the \<open>try\<close> block of \<open>calculate_heading_from_metadata\<close> at index \<open>i\<close>:
  four array reads and the call of \<open>hsfm.geospatial.calculate_heading\<close>, which is a
  parameter \<open>calc\<close> here and may raise.
\<close>

definition try_heading ::
  "('c \<Rightarrow> 'c \<Rightarrow> 'c \<Rightarrow> 'c \<Rightarrow> error + 'h) \<Rightarrow> 'c list \<Rightarrow> 'c list \<Rightarrow> nat \<Rightarrow> error + 'h" where
  "try_heading calc lons lats i =
     (case np_get lons i of Inl e \<Rightarrow> Inl e | Inr p0_lon \<Rightarrow>
     (case np_get lats i of Inl e \<Rightarrow> Inl e | Inr p0_lat \<Rightarrow>
     (case np_get lons (i + 1) of Inl e \<Rightarrow> Inl e | Inr p1_lon \<Rightarrow>
     (case np_get lats (i + 1) of Inl e \<Rightarrow> Inl e | Inr p1_lat \<Rightarrow>
        calc p0_lon p0_lat p1_lon p1_lat))))"

text \<open>
  The \<open>for i, v in enumerate(lats)\<close> loop. The local variable \<open>heading\<close> is unbound
  (\<open>None\<close>) until the first successful computation; the bare \<open>except\<close> catches every
  exception of the body and appends the current \<open>heading\<close>, which raises
  \<open>UnboundLocalError\<close> out of the handler when it is still unbound.
\<close>

fun heading_loop ::
  "('c \<Rightarrow> 'c \<Rightarrow> 'c \<Rightarrow> 'c \<Rightarrow> error + 'h) \<Rightarrow> 'c list \<Rightarrow> 'c list \<Rightarrow> nat list
     \<Rightarrow> 'h option \<Rightarrow> 'h list \<Rightarrow> error + 'h list" where
  "heading_loop calc lons lats [] heading headings = Inr headings"
| "heading_loop calc lons lats (i # rest) heading headings =
     (case try_heading calc lons lats i of
        Inr h \<Rightarrow> heading_loop calc lons lats rest (Some h) (headings @ [h])
      | Inl _ \<Rightarrow>
          (case heading of
             None \<Rightarrow> Inl UnboundLocalError
           | Some h \<Rightarrow> heading_loop calc lons lats rest (Some h) (headings @ [h])))"

text \<open>
  \<open>calculate_heading_from_metadata\<close>, from the two columns \<open>Longitude\<close> and
  \<open>Latitude\<close> of the selected table on; the result is the new column \<open>heading\<close>.
\<close>

definition calculate_heading_from_metadata ::
  "('c \<Rightarrow> 'c \<Rightarrow> 'c \<Rightarrow> 'c \<Rightarrow> error + 'h) \<Rightarrow> 'c list \<Rightarrow> 'c list \<Rightarrow> error + 'h list" where
  "calculate_heading_from_metadata calc lons lats =
     heading_loop calc lons lats [0..<length lats] None []"

section \<open>\<open>hsfm/pipeline/pipeline.py\<close>: the pipeline object\<close>

text \<open>
  The fields of a \<open>Pipeline\<close> instance. Configuration values that the orchestrator only
  hands on to its helpers are Python values; the output path and the file names derived
  from it are strings, as \<open>os.path.join\<close> requires. \<open>input_images_metadata_file\<close>
  is rebound by \<open>run_multi\<close> to whatever \<open>run\<close> returned, so it is a Python value.
\<close>

record 'n pipeline =
  input_images_path :: "'n val"
  reference_dem :: "'n val"
  image_matching_accuracy :: "'n val"
  densecloud_quality :: "'n val"
  output_DEM_resolution :: "'n val"
  project_name :: "'n val"
  output_path :: string
  input_images_metadata_file :: "'n val"
  license_path :: "'n val"
  verbose :: "'n val"
  rotation_enabled :: bool
  camera_models_path :: "'n val"
  original_output_path :: string
  bundle_adjusted_metadata_file :: string
  bundle_adjusted_unaligned_metadata_file :: string
  aligned_bundle_adjusted_metadata_file :: string
  nuthed_aligned_bundle_adjusted_metadata_file :: string
  clipped_reference_dem_file :: string

text \<open>\<open>Pipeline.__init__\<close>, with the keyword parameters passed explicitly.\<close>

definition init_pipeline ::
  "'n val \<Rightarrow> 'n val \<Rightarrow> 'n val \<Rightarrow> 'n val \<Rightarrow> 'n val \<Rightarrow> 'n val \<Rightarrow> string \<Rightarrow> 'n val
     \<Rightarrow> 'n val \<Rightarrow> 'n val \<Rightarrow> 'n val \<Rightarrow> bool \<Rightarrow> 'n pipeline" where
  "init_pipeline input_images_path' reference_dem' image_matching_accuracy'
       densecloud_quality' output_DEM_resolution' project_name' output_path'
       input_images_metadata_file' camera_models_path' license_path' verbose'
       rotation_enabled' =
     \<lparr> input_images_path = input_images_path',
       reference_dem = reference_dem',
       image_matching_accuracy = image_matching_accuracy',
       densecloud_quality = densecloud_quality',
       output_DEM_resolution = output_DEM_resolution',
       project_name = project_name',
       output_path = output_path',
       input_images_metadata_file = input_images_metadata_file',
       license_path = license_path',
       verbose = verbose',
       rotation_enabled = rotation_enabled',
       camera_models_path = camera_models_path',
       original_output_path = output_path',
       bundle_adjusted_metadata_file =
         path_join output_path' ''metaflow_bundle_adj_metadata.csv'',
       bundle_adjusted_unaligned_metadata_file =
         path_join output_path' ''metaflow_bundle_adj_unaligned_metadata.csv'',
       aligned_bundle_adjusted_metadata_file =
         path_join output_path' ''aligned_bundle_adj_metadata.csv'',
       nuthed_aligned_bundle_adjusted_metadata_file =
         path_join output_path' ''nuth_aligned_bundle_adj_metadata.csv'',
       clipped_reference_dem_file =
         path_join output_path' ''reference_dem_clipped.tif'' \<rparr>"

text \<open>\<open>Pipeline._update_output_paths\<close> and \<open>Pipeline._set_input_images_metadata_file\<close>.\<close>

definition update_output_paths :: "string \<Rightarrow> 'n pipeline \<Rightarrow> 'n pipeline" where
  "update_output_paths new_output_path p =
     p \<lparr> output_path := new_output_path,
         bundle_adjusted_metadata_file :=
           path_join new_output_path ''metaflow_bundle_adj_metadata.csv'',
         bundle_adjusted_unaligned_metadata_file :=
           path_join new_output_path ''metaflow_bundle_adj_unaligned_metadata.csv'',
         aligned_bundle_adjusted_metadata_file :=
           path_join new_output_path ''aligned_bundle_adj_metadata.csv'',
         nuthed_aligned_bundle_adjusted_metadata_file :=
           path_join new_output_path ''nuth_aligned_bundle_adj_metadata.csv'' \<rparr>"

definition set_input_images_metadata_file :: "'n val \<Rightarrow> 'n pipeline \<Rightarrow> 'n pipeline" where
  "set_input_images_metadata_file updated_cameras p =
     p \<lparr> input_images_metadata_file := updated_cameras \<rparr>"

section \<open>The world the pipeline runs in\<close>

text \<open>
  Every call the pipeline makes into code that is not embedded here: Metashape, rioxarray,
  and the \<open>hsfm.metashape\<close>, \<open>hsfm.asp\<close>, \<open>hsfm.core\<close>, \<open>hsfm.geospatial\<close>,
  \<open>hsfm.plot\<close> and \<open>hsfm.utils\<close> helpers, with the arguments in the order of the
  source. The pipeline calls \<open>hsfm.utils.dem_align_custom\<close> with the output directory
  as third argument, and \<open>hsfm.utils.clip_reference_dem\<close> and
  \<open>hsfm.utils.apply_nuth_transform_to_camera_metadata\<close>; the file
  \<open>hsfm/utils/utils.py\<close> defines neither of the last two and a \<open>dem_align_custom\<close>
  without that parameter, so all three are helpers of this kind.
  \<open>Authentication\<close> stands for the call of \<open>hsfm.metashape.authentication\<close>
  followed by the read of \<open>Metashape.app.activated\<close>. \<open>Point2dem\<close> receives the
  resolution itself where the source passes \<open>str\<close> of it. Constant arguments
  (\<open>build_dem=True\<close>, \<open>iteration=0\<close>, the \<open>--nodata-value\<close> flag) are left out.
\<close>

datatype 'n call =
    Authentication "'n val"
  | Images2las "'n val" "'n val" "'n val" string "'n val" "'n val" bool "'n val"
  | Images2ortho "'n val" string bool
  | GetEpsgCode "'n val"
  | Point2dem "'n val" "'n val" string "'n val"
  | UpdateBaCameraMetadata "'n val" "'n val"
  | ComputePointOffsets "'n val" "'n val"
  | CE90 "'n val" "'n val"
  | LE90 "'n val"
  | PlotOffsets "'n val" "'n val" "'n val" "'n val" "'n val" string string
  | RasterBounds "'n val"
  | ClipReferenceDem "'n val" "'n val" string "'n val"
  | PcAlignP2pSp2p "'n val" "'n val" string "'n val"
  | MetadataTransform string "'n val" string
  | DemAlignCustom "'n val" "'n val" string "'n val"
  | ApplyNuthTransformToCameraMetadata "'n dataframe" string
  | ExportUpdatedOrthomosaic "'n val" string "'n val" string

text \<open>
  The effects of a run, in order: the calls above, and the tables the orchestrator itself
  writes with \<open>DataFrame.to_csv\<close>.
\<close>

datatype 'n event = Ext "'n call" | ToCsv string "'n dataframe"

text \<open>
  The store holds the metadata tables (the CSV files) by path; \<open>'x\<close> is everything else
  the helpers keep (rasters, Metashape projects, the licence state). Directories are not
  modelled: writing a table to a path always succeeds. A helper may raise (\<open>Inl\<close> its
  message), return a value, and change both parts of the store. \<open>contains\<close> is
  \<open>box(*a).contains(box(*b))\<close> of shapely on two bounds.
\<close>

type_synonym ('n, 'x) store = "(string \<rightharpoonup> 'n dataframe) \<times> 'x"

record ('n, 'x) env =
  ext :: "'n call \<Rightarrow> ('n, 'x) store \<Rightarrow> (string + 'n val) \<times> ('n, 'x) store"
  contains :: "'n val \<Rightarrow> 'n val \<Rightarrow> error + bool"

record ('n, 'x) world =
  self :: "'n pipeline"
  fs :: "string \<rightharpoonup> 'n dataframe"
  outside :: 'x
  trace :: "'n event list"

type_synonym ('a, 'n, 'x) action = "('n, 'x) world \<Rightarrow> (error + 'a) \<times> ('n, 'x) world"

definition return :: "'a \<Rightarrow> ('a, 'n, 'x) action" where
  "return x w = (Inr x, w)"

definition raise :: "error \<Rightarrow> ('a, 'n, 'x) action" where
  "raise e w = (Inl e, w)"

definition lift :: "error + 'a \<Rightarrow> ('a, 'n, 'x) action" where
  "lift r w = (r, w)"

definition bind :: "('a, 'n, 'x) action \<Rightarrow> ('a \<Rightarrow> ('b, 'n, 'x) action) \<Rightarrow> ('b, 'n, 'x) action" where
  "bind m f w = (case m w of (Inl e, w') \<Rightarrow> (Inl e, w') | (Inr x, w') \<Rightarrow> f x w')"

definition get_self :: "('n pipeline, 'n, 'x) action" where
  "get_self w = (Inr (self w), w)"

definition modify_self :: "('n pipeline \<Rightarrow> 'n pipeline) \<Rightarrow> (unit, 'n, 'x) action" where
  "modify_self f w = (Inr (), w \<lparr> self := f (self w) \<rparr>)"

text \<open>A call of a helper: logged, and its exception, if any, propagates.\<close>

definition call :: "('n, 'x) env \<Rightarrow> 'n call \<Rightarrow> ('n val, 'n, 'x) action" where
  "call env c w =
     (case ext env c (fs w, outside w) of
        (r, (fs', outside')) \<Rightarrow>
          ((case r of Inl msg \<Rightarrow> Inl (Collaborator msg) | Inr v \<Rightarrow> Inr v),
           w \<lparr> fs := fs', outside := outside', trace := trace w @ [Ext c] \<rparr>))"

text \<open>
  \<open>pd.read_csv(v)\<close>: a value that is neither a path nor a buffer raises
  \<open>ValueError\<close>; a path with no table behind it raises.
\<close>

definition read_csv :: "'n val \<Rightarrow> ('n dataframe, 'n, 'x) action" where
  "read_csv v w =
     (case v of
        VStr path \<Rightarrow>
          (case fs w path of
             None \<Rightarrow> (Inl FileNotFoundError, w)
           | Some df \<Rightarrow> (Inr df, w))
      | _ \<Rightarrow> (Inl ValueError, w))"

text \<open>\<open>df.to_csv(path, index=False)\<close>.\<close>

definition to_csv :: "string \<Rightarrow> 'n dataframe \<Rightarrow> (unit, 'n, 'x) action" where
  "to_csv path df w =
     (Inr (), w \<lparr> fs := (fs w)(path \<mapsto> df), trace := trace w @ [ToCsv path df] \<rparr>)"

definition to_csv_val :: "'n val \<Rightarrow> 'n dataframe \<Rightarrow> (unit, 'n, 'x) action" where
  "to_csv_val v df = (case v of VStr path \<Rightarrow> to_csv path df | _ \<Rightarrow> raise ValueError)"

section \<open>\<open>hsfm/pipeline/pipeline.py\<close>: the stages\<close>

text \<open>
  \<open>Pipeline._is_metashape_activated\<close>. \<open>Metashape.app.activated\<close> is a Boolean
  property; the run proceeds when it is \<open>True\<close>.
\<close>

definition is_metashape_activated :: "('n, 'x) env \<Rightarrow> (bool, 'n, 'x) action" where
  "is_metashape_activated env =
     bind get_self (\<lambda>p.
     bind (call env (Authentication (license_path p))) (\<lambda>activated.
     return (activated = VBool True)))"

text \<open>
  \<open>Pipeline._reset_yaw_pitch_roll\<close>: the table is read, the three columns are set to
  \<open>0\<close> (the chained assignment binds \<open>yaw\<close>, then \<open>pitch\<close>, then \<open>roll\<close>), and the
  table is written back to the path it was read from.
\<close>

definition zero_yaw_pitch_roll :: "'n dataframe \<Rightarrow> 'n dataframe" where
  "zero_yaw_pitch_roll df =
     set_col ''roll'' (CInt 0) (set_col ''pitch'' (CInt 0) (set_col ''yaw'' (CInt 0) df))"

definition reset_yaw_pitch_roll :: "'n val \<Rightarrow> (unit, 'n, 'x) action" where
  "reset_yaw_pitch_roll camera_metadata_file_path =
     bind (read_csv camera_metadata_file_path) (\<lambda>df.
     to_csv_val camera_metadata_file_path (zero_yaw_pitch_roll df))"

text \<open>\<open>Pipeline._run_metashape\<close>.\<close>

definition run_metashape ::
  "('n, 'x) env \<Rightarrow> bool \<Rightarrow> ('n val \<times> 'n val, 'n, 'x) action" where
  "run_metashape env rotation_enabled' =
     bind get_self (\<lambda>p.
     bind (reset_yaw_pitch_roll (input_images_metadata_file p)) (\<lambda>_.
     bind (call env (Images2las (project_name p) (input_images_path p)
               (input_images_metadata_file p) (output_path p)
               (image_matching_accuracy p) (densecloud_quality p)
               rotation_enabled' (camera_models_path p))) (\<lambda>r.
     lift (unpack2 r))))"

text \<open>\<open>Pipeline._extract_orthomosaic\<close>, called with \<open>split_in_blocks=False\<close>.\<close>

definition extract_orthomosaic :: "('n, 'x) env \<Rightarrow> (unit, 'n, 'x) action" where
  "extract_orthomosaic env =
     bind get_self (\<lambda>p.
     bind (call env (Images2ortho (project_name p) (output_path p) False)) (\<lambda>_.
     return ()))"

text \<open>\<open>Pipeline._extract_dem\<close>.\<close>

definition extract_dem :: "('n, 'x) env \<Rightarrow> 'n val \<Rightarrow> ('n val, 'n, 'x) action" where
  "extract_dem env point_cloud_file =
     bind get_self (\<lambda>p.
     bind (call env (GetEpsgCode (reference_dem p))) (\<lambda>code.
     bind (lift (str_concat ''EPSG:'' code)) (\<lambda>epsg_code.
     call env (Point2dem point_cloud_file (output_DEM_resolution p) epsg_code (verbose p)))))"

text \<open>\<open>Pipeline._update_camera_data\<close>.\<close>

definition update_camera_data :: "('n, 'x) env \<Rightarrow> 'n val \<Rightarrow> ('n val, 'n, 'x) action" where
  "update_camera_data env project_file =
     bind get_self (\<lambda>p.
     bind (call env (UpdateBaCameraMetadata project_file (input_images_metadata_file p))) (\<lambda>r.
     bind (lift (unpack2 r)) (\<lambda>(ba_cameras_df, unaligned_cameras_df).
     bind (lift (as_dataframe ba_cameras_df)) (\<lambda>ba.
     bind (to_csv (bundle_adjusted_metadata_file p) ba) (\<lambda>_.
     bind (lift (as_dataframe unaligned_cameras_df)) (\<lambda>un.
     bind (to_csv (bundle_adjusted_unaligned_metadata_file p) un) (\<lambda>_.
     return unaligned_cameras_df)))))))"

text \<open>\<open>Pipeline._compare_camera_positions\<close>.\<close>

definition compare_camera_positions ::
  "('n, 'x) env \<Rightarrow> 'n val \<Rightarrow> 'n val \<Rightarrow> string \<Rightarrow> string \<Rightarrow> (unit, 'n, 'x) action" where
  "compare_camera_positions env metadata_file_1 metadata_file_2 title plot_file_name =
     bind get_self (\<lambda>p.
     bind (call env (ComputePointOffsets metadata_file_1 metadata_file_2)) (\<lambda>r.
     bind (lift (unpack3 r)) (\<lambda>(x_offset, y_offset, z_offset).
     bind (call env (CE90 x_offset y_offset)) (\<lambda>ba_CE90.
     bind (call env (LE90 z_offset)) (\<lambda>ba_LE90.
     bind (call env (PlotOffsets ba_LE90 ba_CE90 x_offset y_offset z_offset title
               (path_join (output_path p) plot_file_name))) (\<lambda>_.
     return ()))))))"

text \<open>
  The footprint test of both alignment routines: the bounds of the reference DEM and of
  the given DEM are read, and the first box is asked whether it contains the second.
\<close>

definition reference_contains :: "('n, 'x) env \<Rightarrow> 'n val \<Rightarrow> (bool, 'n, 'x) action" where
  "reference_contains env dem =
     bind get_self (\<lambda>p.
     bind (call env (RasterBounds (reference_dem p))) (\<lambda>reference_dem_bounds.
     bind (call env (RasterBounds dem)) (\<lambda>new_dem_bounds.
     lift (contains env reference_dem_bounds new_dem_bounds))))"

text \<open>\<open>Pipeline._pc_align_routine\<close>.\<close>

definition pc_align_routine ::
  "('n, 'x) env \<Rightarrow> 'n val \<Rightarrow> ('n val \<times> 'n val, 'n, 'x) action" where
  "pc_align_routine env dem =
     bind get_self (\<lambda>p.
     bind (reference_contains env dem) (\<lambda>inside.
     if inside then
       bind (call env (ClipReferenceDem dem (reference_dem p)
                 (clipped_reference_dem_file p) (verbose p))) (\<lambda>clipped_reference_dem_file'.
       bind (call env (PcAlignP2pSp2p dem clipped_reference_dem_file'
                 (output_path p) (verbose p))) (\<lambda>r.
       lift (unpack2 r)))
     else
       bind (call env (PcAlignP2pSp2p dem (reference_dem p)
                 (output_path p) (verbose p))) (\<lambda>r.
       lift (unpack2 r))))"

text \<open>\<open>Pipeline._apply_transform_and_update_camera_data\<close>.\<close>

definition apply_transform_and_update_camera_data ::
  "('n, 'x) env \<Rightarrow> 'n val \<Rightarrow> ('n dataframe, 'n, 'x) action" where
  "apply_transform_and_update_camera_data env transform =
     bind get_self (\<lambda>p.
     bind (call env (MetadataTransform (bundle_adjusted_metadata_file p) transform
               (aligned_bundle_adjusted_metadata_file p))) (\<lambda>_.
     bind (read_csv (VStr (aligned_bundle_adjusted_metadata_file p))) (\<lambda>df.
     bind (to_csv (aligned_bundle_adjusted_metadata_file p) df) (\<lambda>_.
     return df))))"

text \<open>\<open>Pipeline._nuth_kaab_align_routine\<close>.\<close>

definition nuth_kaab_align_routine ::
  "('n, 'x) env \<Rightarrow> 'n val \<Rightarrow> ('n val, 'n, 'x) action" where
  "nuth_kaab_align_routine env aligned_dem_file =
     bind get_self (\<lambda>p.
     bind (reference_contains env aligned_dem_file) (\<lambda>inside.
     if inside then
       call env (DemAlignCustom (VStr (clipped_reference_dem_file p)) aligned_dem_file
                   (output_path p) (verbose p))
     else
       call env (DemAlignCustom (reference_dem p) aligned_dem_file
                   (output_path p) (verbose p))))"

text \<open>
  \<open>Pipeline._apply_nuth_transform_and_update_camera_data\<close>. The helper receives the
  table and the directory of the co-registration output and nothing else; the method
  returns \<open>None\<close>.
\<close>

definition apply_nuth_transform_and_update_camera_data ::
  "('n, 'x) env \<Rightarrow> 'n dataframe \<Rightarrow> (unit, 'n, 'x) action" where
  "apply_nuth_transform_and_update_camera_data env df =
     bind get_self (\<lambda>p.
     bind (call env (ApplyNuthTransformToCameraMetadata df
               (path_join (path_join (output_path p) ''pc_align'')
                  ''spoint2point_bareground-trans_source-DEM_dem_align''))) (\<lambda>_.
     return ()))"

text \<open>\<open>Pipeline._export_aligned_orthomosaic\<close>.\<close>

definition export_aligned_orthomosaic ::
  "('n, 'x) env \<Rightarrow> 'n val \<Rightarrow> 'n val \<Rightarrow> (unit, 'n, 'x) action" where
  "export_aligned_orthomosaic env dem project_file =
     bind get_self (\<lambda>p.
     bind (call env (ExportUpdatedOrthomosaic project_file
               (nuthed_aligned_bundle_adjusted_metadata_file p) dem
               (path_join (output_path p) ''orthomosaic_final.tif''))) (\<lambda>_.
     return ()))"

section \<open>\<open>Pipeline.run\<close> and \<open>Pipeline.run_multi\<close>\<close>

text \<open>
  \<open>Pipeline.run\<close>. With Metashape activated the stages run in the order of the source
  and the method returns the pair of the path of the co-registered table and the table of
  unaligned cameras. Otherwise the method prints a message, evaluates the name
  \<open>exit\<close> without calling it, and so returns \<open>None\<close>.
\<close>

definition run :: "('n, 'x) env \<Rightarrow> bool \<Rightarrow> bool \<Rightarrow> ('n val, 'n, 'x) action" where
  "run env rotation_enabled' export_orthomosaic =
     bind get_self (\<lambda>p.
     bind (is_metashape_activated env) (\<lambda>metashape_is_activated.
     if metashape_is_activated then
       bind (read_csv (input_images_metadata_file p)) (\<lambda>_.
       bind (run_metashape env rotation_enabled') (\<lambda>(project_file, point_cloud_file).
       bind (if export_orthomosaic then extract_orthomosaic env else return ()) (\<lambda>_.
       bind (extract_dem env point_cloud_file) (\<lambda>dem.
       bind (update_camera_data env project_file) (\<lambda>unaligned_cameras_df.
       bind (compare_camera_positions env
               (input_images_metadata_file p)
               (VStr (bundle_adjusted_metadata_file p))
               ''Initial vs Bundle Adjusted''
               ''initial_vs_bundle_adj_offsets.png'') (\<lambda>_.
       bind (pc_align_routine env dem) (\<lambda>(aligned_dem_file, transform).
       bind (apply_transform_and_update_camera_data env transform) (\<lambda>df.
       bind (compare_camera_positions env
               (VStr (bundle_adjusted_metadata_file p))
               (VStr (aligned_bundle_adjusted_metadata_file p))
               ''Bundle Adjusted vs Bundle Adjusted and Aligned''
               ''bundle_adj__vs_bundle_adj_and_aligned_offsets.png'') (\<lambda>_.
       bind (nuth_kaab_align_routine env aligned_dem_file) (\<lambda>r.
       bind (lift (unpack2 r)) (\<lambda>(dem_difference_file, nuth_aligned_dem_file).
       bind (apply_nuth_transform_and_update_camera_data env df) (\<lambda>_.
       bind (compare_camera_positions env
               (VStr (aligned_bundle_adjusted_metadata_file p))
               (VStr (nuthed_aligned_bundle_adjusted_metadata_file p))
               ''Bundle Adjusted + Aligned vs Bundle Adjusted + Aligned + Nuth-Aligned''
               ''bundle_adj_and_aligned_vs_bundle_adj_and_aligned_and_nuthed_offsets.png'') (\<lambda>_.
       bind (compare_camera_positions env
               (input_images_metadata_file p)
               (VStr (nuthed_aligned_bundle_adjusted_metadata_file p))
               ''Original vs Bundle Adjusted + Aligned + Nuth-Aligned''
               ''og_vs_final_offsets.png'') (\<lambda>_.
       bind (if export_orthomosaic
             then export_aligned_orthomosaic env nuth_aligned_dem_file project_file
             else return ()) (\<lambda>_.
       return (VTuple [VStr (nuthed_aligned_bundle_adjusted_metadata_file p),
                       unaligned_cameras_df]))))))))))))))))
     else return VNone))"

text \<open>
  One turn of the loop of \<open>run_multi\<close> for the index \<open>i\<close>: the output paths are moved
  below \<open>original_output_path/i/\<close>, the pipeline runs, and its return value becomes the
  input metadata file of the object. The loop calls
  \<open>self.run(rotation_enabled, export_orthomosaic=export_orthomosaic)\<close>, a method looked
  up on the object: it is the parameter \<open>run'\<close> here, so that the arguments of every
  call can be told apart, whatever the method does with them.
\<close>

definition iteration_path :: "'n pipeline \<Rightarrow> nat \<Rightarrow> string" where
  "iteration_path p i = path_join (original_output_path p) (str_nat i @ ''/'')"

text \<open>
  The directory part that \<open>os.path.join\<close> puts before the iteration index.
\<close>

definition iteration_base :: "'n pipeline \<Rightarrow> string" where
  "iteration_base p =
     (if original_output_path p = [] \<or> last (original_output_path p) = CHR ''/''
      then original_output_path p else original_output_path p @ ''/'')"

definition iteration_with ::
  "(bool \<Rightarrow> bool \<Rightarrow> ('n val, 'n, 'x) action) \<Rightarrow> bool \<Rightarrow> nat \<Rightarrow> bool
     \<Rightarrow> ('n val, 'n, 'x) action" where
  "iteration_with run' export_orthomosaic i rotation_enabled' =
     bind get_self (\<lambda>p.
     bind (modify_self (update_output_paths (iteration_path p i))) (\<lambda>_.
     bind (run' rotation_enabled' export_orthomosaic) (\<lambda>updated_cameras.
     bind (modify_self (set_input_images_metadata_file updated_cameras)) (\<lambda>_.
     return updated_cameras))))"

text \<open>
  The \<open>for i in range(0, iterations)\<close> loop, with the two local variables it rebinds:
  \<open>rotation_enabled\<close> and \<open>updated_cameras\<close>, the latter unbound (\<open>None\<close>) before
  the first turn.
\<close>

fun run_multi_loop_with ::
  "(bool \<Rightarrow> bool \<Rightarrow> ('n val, 'n, 'x) action) \<Rightarrow> bool \<Rightarrow> nat list \<Rightarrow> bool
     \<Rightarrow> 'n val option \<Rightarrow> ('n val option, 'n, 'x) action" where
  "run_multi_loop_with run' export_orthomosaic [] rotation_enabled' updated_cameras w =
     (Inr updated_cameras, w)"
| "run_multi_loop_with run' export_orthomosaic (i # rest) rotation_enabled' updated_cameras w =
     (case iteration_with run' export_orthomosaic i rotation_enabled' w of
        (Inl e, w') \<Rightarrow> (Inl e, w')
      | (Inr updated_cameras', w') \<Rightarrow>
          run_multi_loop_with run' export_orthomosaic rest False (Some updated_cameras') w')"

text \<open>\<open>range(0, n)\<close> for a Python integer \<open>n\<close>: empty when \<open>n \<le> 0\<close>.\<close>

definition py_range :: "int \<Rightarrow> nat list" where
  "py_range n = [0..<nat n]"

text \<open>
  \<open>Pipeline.run_multi\<close>. Returning \<open>updated_cameras\<close> while it is still unbound raises
  \<open>UnboundLocalError\<close>.
\<close>

definition run_multi_with ::
  "(bool \<Rightarrow> bool \<Rightarrow> ('n val, 'n, 'x) action) \<Rightarrow> int \<Rightarrow> bool \<Rightarrow> ('n val, 'n, 'x) action" where
  "run_multi_with run' iterations export_orthomosaic =
     bind get_self (\<lambda>p.
     bind (run_multi_loop_with run' export_orthomosaic (py_range iterations)
             (rotation_enabled p) None) (\<lambda>updated_cameras.
     case updated_cameras of
       None \<Rightarrow> raise UnboundLocalError
     | Some v \<Rightarrow> return v))"

text \<open>
  On an object of the class \<open>Pipeline\<close> itself the method is \<open>Pipeline.run\<close>.
\<close>

definition iteration :: "('n, 'x) env \<Rightarrow> bool \<Rightarrow> nat \<Rightarrow> bool \<Rightarrow> ('n val, 'n, 'x) action" where
  "iteration env = iteration_with (run env)"

definition run_multi_loop ::
  "('n, 'x) env \<Rightarrow> bool \<Rightarrow> nat list \<Rightarrow> bool \<Rightarrow> 'n val option
     \<Rightarrow> ('n val option, 'n, 'x) action" where
  "run_multi_loop env = run_multi_loop_with (run env)"

definition run_multi :: "('n, 'x) env \<Rightarrow> int \<Rightarrow> bool \<Rightarrow> ('n val, 'n, 'x) action" where
  "run_multi env = run_multi_with (run env)"

section \<open>\<open>hsfm/batch/pipeline.py\<close>: applying the co-registration shift\<close>

text \<open>
  The columns of a camera table that \<open>__apply_nuth_transform_and_update_camera_data\<close>
  touches, and the \<open>shift\<close> entry of the JSON file written by the co-registration.
\<close>

record 'n camera =
  lat :: 'n
  lon :: 'n
  alt :: 'n

record 'n shift =
  dx :: 'n
  dy :: 'n
  dz :: 'n

text \<open>
  The geodetic library, as parameters: \<open>to_crs src dst (x, y)\<close> reprojects a point
  (geopandas \<open>to_crs\<close>), \<open>fadd\<close> is the addition of floating-point numbers.
\<close>

record 'n geo =
  to_crs :: "string \<Rightarrow> string \<Rightarrow> 'n \<times> 'n \<Rightarrow> 'n \<times> 'n"
  fadd :: "'n \<Rightarrow> 'n \<Rightarrow> 'n"

text \<open>
  One row of \<open>__apply_nuth_transform_and_update_camera_data\<close>: the point
  \<open>(x = lon, y = lat)\<close> is declared \<open>EPSG:4326\<close> and reprojected to \<open>EPSG:32610\<close>,
  \<open>dy\<close> and \<open>dx\<close> are added there, the result is declared \<open>EPSG:32610\<close> and
  reprojected to \<open>EPSG:4326\<close>, and \<open>dz\<close> is added to \<open>alt\<close>. Both codes are
  constants of the source.
\<close>

definition apply_nuth_transform_row :: "'n geo \<Rightarrow> 'n shift \<Rightarrow> 'n camera \<Rightarrow> 'n camera" where
  "apply_nuth_transform_row g s c =
     (let (x, y) = to_crs g ''EPSG:4326'' ''EPSG:32610'' (lon c, lat c);
          new_lat = fadd g y (dy s);
          new_lon = fadd g x (dx s);
          (x', y') = to_crs g ''EPSG:32610'' ''EPSG:4326'' (new_lon, new_lat)
      in c \<lparr> lat := y', lon := x', alt := fadd g (alt c) (dz s) \<rparr>)"

definition apply_nuth_transform :: "'n geo \<Rightarrow> 'n shift \<Rightarrow> 'n camera list \<Rightarrow> 'n camera list" where
  "apply_nuth_transform g s df = map (apply_nuth_transform_row g s) df"

text \<open>
  The operation as the specification words it, for comparison: each record's position is
  converted from \<open>source_crs\<close> into \<open>shift_crs\<close>, \<open>(dx, dy)\<close> is added, the result is
  converted back to \<open>source_crs\<close>, and \<open>dz\<close> is added to the altitude.
\<close>

definition spec_apply_shift ::
  "'n geo \<Rightarrow> string \<Rightarrow> string \<Rightarrow> 'n shift \<Rightarrow> 'n camera list \<Rightarrow> 'n camera list" where
  "spec_apply_shift g source_crs shift_crs s df =
     map (\<lambda>c.
       let (x, y) = to_crs g source_crs shift_crs (lon c, lat c);
           (x', y') = to_crs g shift_crs source_crs (fadd g x (dx s), fadd g y (dy s))
       in c \<lparr> lat := y', lon := x', alt := fadd g (alt c) (dz s) \<rparr>) df"

section \<open>What a run may do\<close>

text \<open>
  \<open>obeys p P R m\<close>: started on the pipeline object \<open>p\<close>, the action \<open>m\<close> leaves the
  object as it is, only appends events that satisfy \<open>P\<close> to the trace, and any value it
  returns satisfies \<open>R\<close>.
\<close>

definition obeys ::
  "'n pipeline \<Rightarrow> ('n event \<Rightarrow> bool) \<Rightarrow> ('a \<Rightarrow> bool) \<Rightarrow> ('a, 'n, 'x) action \<Rightarrow> bool" where
  "obeys p P R m =
     (\<forall>w. self w = p \<longrightarrow>
        self (snd (m w)) = p
        \<and> (\<exists>es. trace (snd (m w)) = trace w @ es \<and> list_all P es)
        \<and> (\<forall>x. fst (m w) = Inr x \<longrightarrow> R x))"

text \<open>
  The events of one \<open>run\<close> on the object \<open>p\<close> with the flag \<open>rot\<close>: which paths and
  which flag each helper is handed, and where the orchestrator writes tables.
\<close>

fun run_event_ok :: "'n pipeline \<Rightarrow> bool \<Rightarrow> 'n event \<Rightarrow> bool" where
  "run_event_ok p rot (Ext (Authentication l)) = (l = license_path p)"
| "run_event_ok p rot (Ext (Images2las pn ip im out acc q r cm)) =
     (im = input_images_metadata_file p \<and> out = output_path p \<and> r = rot)"
| "run_event_ok p rot (Ext (Images2ortho pn out b)) = (out = output_path p)"
| "run_event_ok p rot (Ext (PlotOffsets le ce x y z title plot)) =
     (plot \<in> path_join (output_path p) `
        {''initial_vs_bundle_adj_offsets.png'',
         ''bundle_adj__vs_bundle_adj_and_aligned_offsets.png'',
         ''bundle_adj_and_aligned_vs_bundle_adj_and_aligned_and_nuthed_offsets.png'',
         ''og_vs_final_offsets.png''})"
| "run_event_ok p rot (Ext (ClipReferenceDem dem r out v)) =
     (r = reference_dem p \<and> out = clipped_reference_dem_file p)"
| "run_event_ok p rot (Ext (PcAlignP2pSp2p dem r out v)) = (out = output_path p)"
| "run_event_ok p rot (Ext (MetadataTransform src t out)) =
     (src = bundle_adjusted_metadata_file p \<and> out = aligned_bundle_adjusted_metadata_file p)"
| "run_event_ok p rot (Ext (DemAlignCustom r a out v)) =
     ((r = VStr (clipped_reference_dem_file p) \<or> r = reference_dem p) \<and> out = output_path p)"
| "run_event_ok p rot (Ext (ApplyNuthTransformToCameraMetadata df path)) =
     (path = path_join (path_join (output_path p) ''pc_align'')
               ''spoint2point_bareground-trans_source-DEM_dem_align'')"
| "run_event_ok p rot (Ext (ExportUpdatedOrthomosaic proj meta dem file)) =
     (meta = nuthed_aligned_bundle_adjusted_metadata_file p
      \<and> file = path_join (output_path p) ''orthomosaic_final.tif'')"
| "run_event_ok p rot (ToCsv path df) =
     (VStr path = input_images_metadata_file p
      \<or> path = bundle_adjusted_metadata_file p
      \<or> path = bundle_adjusted_unaligned_metadata_file p
      \<or> path = aligned_bundle_adjusted_metadata_file p)"
| "run_event_ok p rot _ = True"

text \<open>What \<open>run\<close> returns: \<open>None\<close>, or a pair whose first component is a path.\<close>

definition run_result_ok :: "'n pipeline \<Rightarrow> 'n val \<Rightarrow> bool" where
  "run_result_ok p v =
     (v = VNone \<or> (\<exists>un. v = VTuple [VStr (nuthed_aligned_bundle_adjusted_metadata_file p), un]))"

text \<open>
  The output locations named in an event: the directory or file a helper is told to write
  to, and the path of a table the orchestrator writes.
\<close>

fun output_locations :: "'n event \<Rightarrow> string list" where
  "output_locations (Ext (Images2las pn ip im out acc q r cm)) = [out]"
| "output_locations (Ext (Images2ortho pn out b)) = [out]"
| "output_locations (Ext (PlotOffsets le ce x y z title plot)) = [plot]"
| "output_locations (Ext (ClipReferenceDem dem r out v)) = [out]"
| "output_locations (Ext (PcAlignP2pSp2p dem r out v)) = [out]"
| "output_locations (Ext (MetadataTransform src t out)) = [out]"
| "output_locations (Ext (DemAlignCustom r a out v)) = [out]"
| "output_locations (Ext (ApplyNuthTransformToCameraMetadata df path)) = [path]"
| "output_locations (Ext (ExportUpdatedOrthomosaic proj meta dem file)) = [file]"
| "output_locations (ToCsv path df) = [path]"
| "output_locations _ = []"

text \<open>
  The reference DEMs named in an event: the DEM an alignment helper is told to align
  against, the second argument of \<open>pc_align_p2p_sp2p\<close> and the first of
  \<open>dem_align_custom\<close>.
\<close>

fun alignment_references :: "'n event \<Rightarrow> 'n val list" where
  "alignment_references (Ext (PcAlignP2pSp2p dem r out v)) = [r]"
| "alignment_references (Ext (DemAlignCustom r a out v)) = [r]"
| "alignment_references _ = []"

section \<open>A test double for the helpers\<close>

text \<open>
  A small deterministic stand-in for the external helpers, over integers, used to run the
  pipeline on concrete inputs. Metashape counts as activated exactly for the licence
  \<open>uw_agisoft.lic\<close>. Bounds are tuples \<open>(left, bottom, right, top)\<close>: the reference DEM
  covers \<open>(0, 0, 10, 10)\<close>, the extracted DEM \<open>(1, 1, 5, 5)\<close>, and the aligned DEM is
  the extracted one moved east by \<open>east\<close>. The point-cloud transform writes the
  table of the bundle adjustment to the requested output file; the helper that applies the
  co-registration shift is given no output path and writes nothing.
\<close>

definition stub_bounds :: "int \<Rightarrow> int val \<Rightarrow> int val" where
  "stub_bounds east v =
     (if v = VStr ''reference_dem.tif'' then VTuple [VInt 0, VInt 0, VInt 10, VInt 10]
      else if v = VStr ''aligned.tif'' then VTuple [VInt (1 + east), VInt 1, VInt (5 + east), VInt 5]
      else VTuple [VInt 1, VInt 1, VInt 5, VInt 5])"

definition stub_cameras :: "int dataframe" where
  "stub_cameras = [(''image_file_name'', [CStr ''a.tif'']), (''lat'', [CInt 46]),
                   (''lon'', [CInt (-121)]), (''alt'', [CInt 3000]),
                   (''yaw'', [CInt 0]), (''pitch'', [CInt 0]), (''roll'', [CInt 0])]"

definition stub_ext :: "int \<Rightarrow> int call \<Rightarrow> (int, unit) store \<Rightarrow> (string + int val) \<times> (int, unit) store" where
  "stub_ext east c s =
     (case c of
        Authentication l \<Rightarrow> (Inr (VBool (l = VStr ''uw_agisoft.lic'')), s)
      | Images2las pn ip im out acc q rot cm \<Rightarrow>
          (Inr (VTuple [VStr (out @ ''project.psx''), VStr (out @ ''cloud.las'')]), s)
      | GetEpsgCode r \<Rightarrow> (Inr (VStr ''32610''), s)
      | Point2dem pc res epsg v \<Rightarrow> (Inr (VStr ''dem.tif''), s)
      | UpdateBaCameraMetadata proj meta \<Rightarrow> (Inr (VTuple [VDf stub_cameras, VDf []]), s)
      | ComputePointOffsets a b \<Rightarrow> (Inr (VTuple [VInt 0, VInt 0, VInt 0]), s)
      | RasterBounds v \<Rightarrow> (Inr (stub_bounds east v), s)
      | ClipReferenceDem dem r out v \<Rightarrow> (Inr (VStr out), s)
      | PcAlignP2pSp2p dem r out v \<Rightarrow>
          (Inr (VTuple [VStr ''aligned.tif'', VStr ''transform.txt'']), s)
      | MetadataTransform src t out \<Rightarrow> (Inr VNone, ((fst s)(out \<mapsto> stub_cameras), snd s))
      | DemAlignCustom r a out v \<Rightarrow>
          (Inr (VTuple [VStr ''diff.tif'', VStr ''nuth_aligned.tif'']), s)
      | _ \<Rightarrow> (Inr VNone, s))"

definition as_int :: "int val \<Rightarrow> int option" where
  "as_int v = (case v of VInt i \<Rightarrow> Some i | _ \<Rightarrow> None)"

definition stub_contains :: "int val \<Rightarrow> int val \<Rightarrow> error + bool" where
  "stub_contains a b =
     (case (iterate a, iterate b) of
        (Inr xs, Inr ys) \<Rightarrow>
          (if length xs = 4 \<and> length ys = 4
              \<and> list_all (\<lambda>v. as_int v \<noteq> None) (xs @ ys)
           then Inr (the (as_int (xs ! 0)) \<le> the (as_int (ys ! 0))
                   \<and> the (as_int (xs ! 1)) \<le> the (as_int (ys ! 1))
                   \<and> the (as_int (ys ! 2)) \<le> the (as_int (xs ! 2))
                   \<and> the (as_int (ys ! 3)) \<le> the (as_int (xs ! 3)))
           else Inl TypeError)
      | _ \<Rightarrow> Inl TypeError)"

definition stub_env :: "int \<Rightarrow> (int, unit) env" where
  "stub_env east = \<lparr> ext = stub_ext east, contains = stub_contains \<rparr>"

text \<open>
  A pipeline as the command line builds it, with output path \<open>out\<close>, and a world whose
  only table is the input metadata file \<open>cameras.csv\<close>, holding one camera with a
  non-zero yaw.
\<close>

definition stub_pipeline :: "int val \<Rightarrow> bool \<Rightarrow> int pipeline" where
  "stub_pipeline licence rot =
     init_pipeline (VStr ''images'') (VStr ''reference_dem.tif'') (VInt 4) (VInt 4) (VInt 2)
       (VStr ''test'') ''out'' (VStr ''cameras.csv'') VNone licence (VBool True) rot"

definition stub_input :: "int dataframe" where
  "stub_input = [(''image_file_name'', [CStr ''a.tif'']), (''lat'', [CInt 46]),
                 (''lon'', [CInt (-121)]), (''alt'', [CInt 3000]), (''yaw'', [CInt 90])]"

definition stub_world :: "int val \<Rightarrow> bool \<Rightarrow> (int, unit) world" where
  "stub_world licence rot =
     \<lparr> self = stub_pipeline licence rot,
       fs = [''cameras.csv'' \<mapsto> stub_input],
       outside = (),
       trace = [] \<rparr>"

text \<open>
  The licence that activates the test double, and the pipeline object of the test world
  after \<open>run_multi\<close> has moved its output paths for the iteration \<open>0\<close>.
\<close>

abbreviation LIC :: "int val" where
  "LIC \<equiv> VStr ''uw_agisoft.lic''"

definition stub_pipeline_0 :: "int val \<Rightarrow> bool \<Rightarrow> int pipeline" where
  "stub_pipeline_0 lic r = update_output_paths ''out/0/'' (stub_pipeline lic r)"

text \<open>
  A stand-in for the method \<open>run\<close> that does nothing but invoke the SfM helper, as
  \<open>_run_metashape\<close> does, with the flag it is given, and returns \<open>None\<close>; and what it
  means for an event to be an SfM call into the directory \<open>out\<close> with the flag \<open>rot\<close>.
\<close>

definition sfm_only_run :: "('n, 'x) env \<Rightarrow> bool \<Rightarrow> bool \<Rightarrow> ('n val, 'n, 'x) action" where
  "sfm_only_run env rotation_enabled' export_orthomosaic =
     bind get_self (\<lambda>p.
     bind (call env (Images2las (project_name p) (input_images_path p)
               (input_images_metadata_file p) (output_path p)
               (image_matching_accuracy p) (densecloud_quality p)
               rotation_enabled' (camera_models_path p))) (\<lambda>_.
     return VNone))"

fun sfm_call_with :: "bool \<Rightarrow> string \<Rightarrow> 'n event \<Rightarrow> bool" where
  "sfm_call_with rot out (Ext (Images2las pn ip im out' acc q r cm)) = (out' = out \<and> r = rot)"
| "sfm_call_with rot out _ = False"

text \<open>
  The events the test double makes a run produce, for the pipeline object \<open>p\<close> whose input
  metadata file is the path \<open>inp\<close> holding the table \<open>df\<close>.
\<close>

definition stub_compare_events ::
  "int pipeline \<Rightarrow> int val \<Rightarrow> int val \<Rightarrow> string \<Rightarrow> string \<Rightarrow> int event list" where
  "stub_compare_events p a b title plot =
     [Ext (ComputePointOffsets a b), Ext (CE90 (VInt 0) (VInt 0)), Ext (LE90 (VInt 0)),
      Ext (PlotOffsets VNone VNone (VInt 0) (VInt 0) (VInt 0) title
             (path_join (output_path p) plot))]"

definition stub_run_events ::
  "int \<Rightarrow> bool \<Rightarrow> bool \<Rightarrow> int pipeline \<Rightarrow> string \<Rightarrow> int dataframe \<Rightarrow> int event list" where
  "stub_run_events east rot ex p inp df =
     [Ext (Authentication (license_path p)),
      ToCsv inp (zero_yaw_pitch_roll df),
      Ext (Images2las (project_name p) (input_images_path p) (VStr inp) (output_path p)
             (image_matching_accuracy p) (densecloud_quality p) rot (camera_models_path p))]
     @ (if ex then [Ext (Images2ortho (project_name p) (output_path p) False)] else [])
     @ [Ext (GetEpsgCode (reference_dem p)),
        Ext (Point2dem (VStr (output_path p @ ''cloud.las'')) (output_DEM_resolution p)
               ''EPSG:32610'' (verbose p)),
        Ext (UpdateBaCameraMetadata (VStr (output_path p @ ''project.psx'')) (VStr inp)),
        ToCsv (bundle_adjusted_metadata_file p) stub_cameras,
        ToCsv (bundle_adjusted_unaligned_metadata_file p) []]
     @ stub_compare_events p (VStr inp) (VStr (bundle_adjusted_metadata_file p))
         ''Initial vs Bundle Adjusted'' ''initial_vs_bundle_adj_offsets.png''
     @ [Ext (RasterBounds (reference_dem p)),
        Ext (RasterBounds (VStr ''dem.tif'')),
        Ext (ClipReferenceDem (VStr ''dem.tif'') (reference_dem p)
               (clipped_reference_dem_file p) (verbose p)),
        Ext (PcAlignP2pSp2p (VStr ''dem.tif'') (VStr (clipped_reference_dem_file p))
               (output_path p) (verbose p)),
        Ext (MetadataTransform (bundle_adjusted_metadata_file p) (VStr ''transform.txt'')
               (aligned_bundle_adjusted_metadata_file p)),
        ToCsv (aligned_bundle_adjusted_metadata_file p) stub_cameras]
     @ stub_compare_events p (VStr (bundle_adjusted_metadata_file p))
         (VStr (aligned_bundle_adjusted_metadata_file p))
         ''Bundle Adjusted vs Bundle Adjusted and Aligned''
         ''bundle_adj__vs_bundle_adj_and_aligned_offsets.png''
     @ [Ext (RasterBounds (reference_dem p)),
        Ext (RasterBounds (VStr ''aligned.tif'')),
        Ext (DemAlignCustom
               (if 0 \<le> 1 + east \<and> 5 + east \<le> 10
                then VStr (clipped_reference_dem_file p) else reference_dem p)
               (VStr ''aligned.tif'') (output_path p) (verbose p)),
        Ext (ApplyNuthTransformToCameraMetadata stub_cameras
               (path_join (path_join (output_path p) ''pc_align'')
                  ''spoint2point_bareground-trans_source-DEM_dem_align''))]
     @ stub_compare_events p (VStr (aligned_bundle_adjusted_metadata_file p))
         (VStr (nuthed_aligned_bundle_adjusted_metadata_file p))
         ''Bundle Adjusted + Aligned vs Bundle Adjusted + Aligned + Nuth-Aligned''
         ''bundle_adj_and_aligned_vs_bundle_adj_and_aligned_and_nuthed_offsets.png''
     @ stub_compare_events p (VStr inp)
         (VStr (nuthed_aligned_bundle_adjusted_metadata_file p))
         ''Original vs Bundle Adjusted + Aligned + Nuth-Aligned'' ''og_vs_final_offsets.png''
     @ (if ex
        then [Ext (ExportUpdatedOrthomosaic (VStr (output_path p @ ''project.psx''))
                     (nuthed_aligned_bundle_adjusted_metadata_file p)
                     (VStr ''nuth_aligned.tif'')
                     (path_join (output_path p) ''orthomosaic_final.tif''))]
        else [])"




section \<open>The loop on \<open>Pipeline.run\<close>\<close>

lemma iteration_eq:
  "iteration env export_orthomosaic i rotation_enabled' =
     bind get_self (\<lambda>p.
     bind (modify_self (update_output_paths (iteration_path p i))) (\<lambda>_.
     bind (run env rotation_enabled' export_orthomosaic) (\<lambda>updated_cameras.
     bind (modify_self (set_input_images_metadata_file updated_cameras)) (\<lambda>_.
     return updated_cameras))))"
  by (simp add: iteration_def iteration_with_def)

lemma run_multi_loop_Nil [simp]:
  "run_multi_loop env export_orthomosaic [] rotation_enabled' updated_cameras w =
     (Inr updated_cameras, w)"
  by (simp add: run_multi_loop_def)

lemma run_multi_loop_Cons [simp]:
  "run_multi_loop env export_orthomosaic (i # rest) rotation_enabled' updated_cameras w =
     (case iteration env export_orthomosaic i rotation_enabled' w of
        (Inl e, w') \<Rightarrow> (Inl e, w')
      | (Inr updated_cameras', w') \<Rightarrow>
          run_multi_loop env export_orthomosaic rest False (Some updated_cameras') w')"
  unfolding run_multi_loop_def iteration_def by simp

lemma run_multi_eq:
  "run_multi env iterations export_orthomosaic =
     bind get_self (\<lambda>p.
     bind (run_multi_loop env export_orthomosaic (py_range iterations)
             (rotation_enabled p) None) (\<lambda>updated_cameras.
     case updated_cameras of
       None \<Rightarrow> raise UnboundLocalError
     | Some v \<Rightarrow> return v))"
  unfolding run_multi_def run_multi_with_def run_multi_loop_def by simp

section \<open>Reasoning about actions\<close>

lemma obeys_return: "R x \<Longrightarrow> obeys p P R (return x)"
  by (simp add: obeys_def return_def)

lemma obeys_raise: "obeys p P R (raise e)"
  by (simp add: obeys_def raise_def)

lemma obeys_lift: "obeys p P (\<lambda>_. True) (lift r)"
  by (simp add: obeys_def lift_def)

lemma obeys_call: "P (Ext c) \<Longrightarrow> obeys p P (\<lambda>_. True) (call env c)"
  by (simp add: obeys_def call_def split: prod.splits)

lemma obeys_read_csv: "obeys p P (\<lambda>_. True) (read_csv v)"
  by (simp add: obeys_def read_csv_def split: val.splits option.splits)

lemma obeys_to_csv: "P (ToCsv path df) \<Longrightarrow> obeys p P (\<lambda>_. True) (to_csv path df)"
  by (simp add: obeys_def to_csv_def)

lemma obeys_to_csv_val:
  "(\<And>path. v = VStr path \<Longrightarrow> P (ToCsv path df)) \<Longrightarrow> obeys p P (\<lambda>_. True) (to_csv_val v df)"
  by (cases v) (simp_all add: to_csv_val_def obeys_raise obeys_to_csv)

lemma obeys_bind:
  assumes m: "obeys p P (\<lambda>_. True) m" and f: "\<And>x. obeys p P R (f x)"
  shows "obeys p P R (bind m f)"
proof -
  have "self (snd (bind m f w)) = p \<and>
        (\<exists>es. trace (snd (bind m f w)) = trace w @ es \<and> list_all P es) \<and>
        (\<forall>x. fst (bind m f w) = Inr x \<longrightarrow> R x)" if w: "self w = p" for w
  proof -
    obtain r w' where mw: "m w = (r, w')" by (cases "m w")
    from m w mw obtain es where 1: "self w' = p" "trace w' = trace w @ es" "list_all P es"
      by (auto simp: obeys_def)
    show ?thesis
    proof (cases r)
      case (Inl e)
      then show ?thesis using mw 1 by (simp add: bind_def)
    next
      case (Inr x)
      from f [of x] 1(1) obtain es' where
        2: "self (snd (f x w')) = p" "trace (snd (f x w')) = trace w' @ es'" "list_all P es'"
           "\<forall>y. fst (f x w') = Inr y \<longrightarrow> R y"
        by (auto simp: obeys_def)
      then show ?thesis using Inr mw 1 by (simp add: bind_def)
    qed
  qed
  then show ?thesis by (simp add: obeys_def)
qed

lemma obeys_case_prod:
  "(\<And>a b. obeys p P R (f a b)) \<Longrightarrow> obeys p P R (case x of (a, b) \<Rightarrow> f a b)"
  by (cases x) simp

lemma obeys_if:
  "obeys p P R a \<Longrightarrow> obeys p P R b \<Longrightarrow> obeys p P R (if c then a else b)"
  by simp

lemma obeys_get_self:
  assumes "obeys p P R (f p)"
  shows "obeys p P R (bind get_self f)"
  using assms by (simp add: obeys_def bind_def get_self_def)

lemma obeys_weaken: "obeys p P R m \<Longrightarrow> obeys p P (\<lambda>_. True) m"
  by (simp add: obeys_def)

lemmas obeys_intros =
  obeys_get_self obeys_bind obeys_return obeys_raise obeys_lift obeys_call obeys_read_csv
  obeys_to_csv obeys_to_csv_val obeys_case_prod obeys_if

lemma is_metashape_activated_obeys:
  "obeys p (run_event_ok p rot) (\<lambda>_. True) (is_metashape_activated env)"
  unfolding is_metashape_activated_def by (intro obeys_intros) simp_all

lemma run_metashape_obeys:
  "obeys p (run_event_ok p rot) (\<lambda>_. True) (run_metashape env rot)"
  unfolding run_metashape_def reset_yaw_pitch_roll_def by (intro obeys_intros) simp_all

lemma extract_orthomosaic_obeys:
  "obeys p (run_event_ok p rot) (\<lambda>_. True) (extract_orthomosaic env)"
  unfolding extract_orthomosaic_def by (intro obeys_intros) simp_all

lemma extract_dem_obeys:
  "obeys p (run_event_ok p rot) (\<lambda>_. True) (extract_dem env pc)"
  unfolding extract_dem_def by (intro obeys_intros) simp_all

lemma update_camera_data_obeys:
  "obeys p (run_event_ok p rot) (\<lambda>_. True) (update_camera_data env proj)"
  unfolding update_camera_data_def by (intro obeys_intros) simp_all

lemma compare_camera_positions_obeys:
  assumes "plot \<in> {''initial_vs_bundle_adj_offsets.png'',
         ''bundle_adj__vs_bundle_adj_and_aligned_offsets.png'',
         ''bundle_adj_and_aligned_vs_bundle_adj_and_aligned_and_nuthed_offsets.png'',
         ''og_vs_final_offsets.png''}"
  shows "obeys p (run_event_ok p rot) (\<lambda>_. True) (compare_camera_positions env a b title plot)"
  unfolding compare_camera_positions_def using assms by (intro obeys_intros) auto

lemma reference_contains_obeys:
  "obeys p (run_event_ok p rot) (\<lambda>_. True) (reference_contains env dem)"
  unfolding reference_contains_def by (intro obeys_intros) simp_all

lemma pc_align_routine_obeys:
  "obeys p (run_event_ok p rot) (\<lambda>_. True) (pc_align_routine env dem)"
  unfolding pc_align_routine_def by (intro obeys_intros reference_contains_obeys) simp_all

lemma apply_transform_obeys:
  "obeys p (run_event_ok p rot) (\<lambda>_. True) (apply_transform_and_update_camera_data env t)"
  unfolding apply_transform_and_update_camera_data_def by (intro obeys_intros) simp_all

lemma nuth_kaab_align_routine_obeys:
  "obeys p (run_event_ok p rot) (\<lambda>_. True) (nuth_kaab_align_routine env a)"
  unfolding nuth_kaab_align_routine_def by (intro obeys_intros reference_contains_obeys) simp_all

lemma apply_nuth_obeys:
  "obeys p (run_event_ok p rot) (\<lambda>_. True) (apply_nuth_transform_and_update_camera_data env df)"
  unfolding apply_nuth_transform_and_update_camera_data_def by (intro obeys_intros) simp_all

lemma export_aligned_orthomosaic_obeys:
  "obeys p (run_event_ok p rot) (\<lambda>_. True) (export_aligned_orthomosaic env dem proj)"
  unfolding export_aligned_orthomosaic_def by (intro obeys_intros) simp_all

lemmas stage_obeys =
  is_metashape_activated_obeys run_metashape_obeys extract_orthomosaic_obeys extract_dem_obeys
  update_camera_data_obeys compare_camera_positions_obeys reference_contains_obeys
  pc_align_routine_obeys apply_transform_obeys nuth_kaab_align_routine_obeys apply_nuth_obeys
  export_aligned_orthomosaic_obeys

section \<open>The events and the result of a run\<close>

lemma run_obeys:
  "obeys p (run_event_ok p rot) (run_result_ok p) (run env rot ex)"
  unfolding run_def by (intro obeys_intros stage_obeys) (simp_all add: run_result_ok_def)


section \<open>Running the pipeline on the test double\<close>

text \<open>
  Each stage, run on the test double from any world, in closed form. The simplifier is kept
  from entering the branches of a \<open>case\<close> before its scrutinee is evaluated.
\<close>

lemmas weak_congs = prod.case_cong_weak sum.case_cong_weak if_weak_cong option.case_cong_weak
  val.case_cong_weak list.case_cong_weak call.case_cong_weak

lemmas action_defs = bind_def return_def raise_def lift_def get_self_def modify_self_def
  call_def read_csv_def to_csv_def to_csv_val_def

lemmas stub_ext_defs = stub_env_def stub_ext_def

lemma stub_is_metashape_activated:
  "is_metashape_activated (stub_env east) w =
     (Inr (license_path (self w) = VStr ''uw_agisoft.lic''),
      w \<lparr> trace := trace w @ [Ext (Authentication (license_path (self w)))] \<rparr>)"
  by (simp add: is_metashape_activated_def action_defs stub_ext_defs)

lemma stub_run_metashape:
  assumes "input_images_metadata_file (self w) = VStr inp" and "fs w inp = Some df"
  shows "run_metashape (stub_env east) rot w =
     (Inr (VStr (output_path (self w) @ ''project.psx''), VStr (output_path (self w) @ ''cloud.las'')),
      w \<lparr> fs := (fs w)(inp \<mapsto> zero_yaw_pitch_roll df),
          trace := trace w @ [ToCsv inp (zero_yaw_pitch_roll df),
            Ext (Images2las (project_name (self w)) (input_images_path (self w)) (VStr inp)
                  (output_path (self w)) (image_matching_accuracy (self w))
                  (densecloud_quality (self w)) rot (camera_models_path (self w)))] \<rparr>)"
  using assms
  by (simp add: run_metashape_def reset_yaw_pitch_roll_def action_defs stub_ext_defs unpack2_def)

lemma stub_extract_orthomosaic:
  "extract_orthomosaic (stub_env east) w =
     (Inr (), w \<lparr> trace := trace w @ [Ext (Images2ortho (project_name (self w)) (output_path (self w)) False)] \<rparr>)"
  by (simp add: extract_orthomosaic_def action_defs stub_ext_defs)

lemma stub_extract_dem:
  "extract_dem (stub_env east) pc w =
     (Inr (VStr ''dem.tif''),
      w \<lparr> trace := trace w @ [Ext (GetEpsgCode (reference_dem (self w))),
             Ext (Point2dem pc (output_DEM_resolution (self w)) ''EPSG:32610'' (verbose (self w)))] \<rparr>)"
  by (simp add: extract_dem_def action_defs stub_ext_defs str_concat_def)

lemma stub_update_camera_data:
  "update_camera_data (stub_env east) proj w =
     (Inr (VDf []),
      w \<lparr> fs := (fs w)(bundle_adjusted_metadata_file (self w) \<mapsto> stub_cameras,
                      bundle_adjusted_unaligned_metadata_file (self w) \<mapsto> []),
          trace := trace w @ [Ext (UpdateBaCameraMetadata proj (input_images_metadata_file (self w))),
             ToCsv (bundle_adjusted_metadata_file (self w)) stub_cameras,
             ToCsv (bundle_adjusted_unaligned_metadata_file (self w)) []] \<rparr>)"
  by (simp add: update_camera_data_def action_defs stub_ext_defs unpack2_def as_dataframe_def)

lemma stub_compare_camera_positions:
  "compare_camera_positions (stub_env east) a b title plot w =
     (Inr (), w \<lparr> trace := trace w @ stub_compare_events (self w) a b title plot \<rparr>)"
  by (simp add: compare_camera_positions_def action_defs stub_ext_defs unpack3_def
        stub_compare_events_def)

lemma stub_pc_align_routine:
  assumes "reference_dem (self w) = VStr ''reference_dem.tif''"
  shows "pc_align_routine (stub_env east) (VStr ''dem.tif'') w =
     (Inr (VStr ''aligned.tif'', VStr ''transform.txt''),
      w \<lparr> trace := trace w @ [Ext (RasterBounds (reference_dem (self w))),
             Ext (RasterBounds (VStr ''dem.tif'')),
             Ext (ClipReferenceDem (VStr ''dem.tif'') (reference_dem (self w))
                   (clipped_reference_dem_file (self w)) (verbose (self w))),
             Ext (PcAlignP2pSp2p (VStr ''dem.tif'') (VStr (clipped_reference_dem_file (self w)))
                   (output_path (self w)) (verbose (self w)))] \<rparr>)"
  using assms
  by (simp add: pc_align_routine_def reference_contains_def action_defs stub_ext_defs unpack2_def
        stub_bounds_def stub_contains_def as_int_def)

lemma stub_apply_transform:
  "apply_transform_and_update_camera_data (stub_env east) t w =
     (Inr stub_cameras,
      w \<lparr> fs := (fs w)(aligned_bundle_adjusted_metadata_file (self w) \<mapsto> stub_cameras),
          trace := trace w @ [Ext (MetadataTransform (bundle_adjusted_metadata_file (self w)) t
                    (aligned_bundle_adjusted_metadata_file (self w))),
             ToCsv (aligned_bundle_adjusted_metadata_file (self w)) stub_cameras] \<rparr>)"
  by (simp add: apply_transform_and_update_camera_data_def action_defs stub_ext_defs)

lemma stub_nuth_kaab_align_routine:
  assumes "reference_dem (self w) = VStr ''reference_dem.tif''"
  shows "nuth_kaab_align_routine (stub_env east) (VStr ''aligned.tif'') w =
     (Inr (VTuple [VStr ''diff.tif'', VStr ''nuth_aligned.tif'']),
      w \<lparr> trace := trace w @ [Ext (RasterBounds (reference_dem (self w))),
             Ext (RasterBounds (VStr ''aligned.tif'')),
             Ext (DemAlignCustom
               (if 0 \<le> 1 + east \<and> 5 + east \<le> 10
                then VStr (clipped_reference_dem_file (self w)) else reference_dem (self w))
               (VStr ''aligned.tif'') (output_path (self w)) (verbose (self w)))] \<rparr>)"
  using assms
  by (simp add: nuth_kaab_align_routine_def reference_contains_def action_defs stub_ext_defs
        stub_bounds_def stub_contains_def as_int_def)

lemma stub_apply_nuth:
  "apply_nuth_transform_and_update_camera_data (stub_env east) df w =
     (Inr (), w \<lparr> trace := trace w @ [Ext (ApplyNuthTransformToCameraMetadata df
               (path_join (path_join (output_path (self w)) ''pc_align'')
                  ''spoint2point_bareground-trans_source-DEM_dem_align''))] \<rparr>)"
  by (simp add: apply_nuth_transform_and_update_camera_data_def action_defs stub_ext_defs)

lemma stub_export_aligned_orthomosaic:
  "export_aligned_orthomosaic (stub_env east) dem proj w =
     (Inr (), w \<lparr> trace := trace w @ [Ext (ExportUpdatedOrthomosaic proj
               (nuthed_aligned_bundle_adjusted_metadata_file (self w)) dem
               (path_join (output_path (self w)) ''orthomosaic_final.tif''))] \<rparr>)"
  by (simp add: export_aligned_orthomosaic_def action_defs stub_ext_defs)

lemmas stub_stages = stub_is_metashape_activated stub_run_metashape stub_extract_orthomosaic
  stub_extract_dem stub_update_camera_data stub_compare_camera_positions stub_pc_align_routine
  stub_apply_transform stub_nuth_kaab_align_routine stub_apply_nuth stub_export_aligned_orthomosaic

lemma stub_run:
  assumes lic: "license_path (self w) = VStr ''uw_agisoft.lic''"
    and inp: "input_images_metadata_file (self w) = VStr inp"
    and tab: "fs w inp = Some df"
    and ref: "reference_dem (self w) = VStr ''reference_dem.tif''"
  shows "run (stub_env east) rot ex w =
     (Inr (VTuple [VStr (nuthed_aligned_bundle_adjusted_metadata_file (self w)), VDf []]),
      w \<lparr> fs := (fs w)(inp \<mapsto> zero_yaw_pitch_roll df,
                      bundle_adjusted_metadata_file (self w) \<mapsto> stub_cameras,
                      bundle_adjusted_unaligned_metadata_file (self w) \<mapsto> [],
                      aligned_bundle_adjusted_metadata_file (self w) \<mapsto> stub_cameras),
          trace := trace w @ stub_run_events east rot ex (self w) inp df \<rparr>)"
  unfolding run_def
  by (simp add: bind_def get_self_def return_def read_csv_def lift_def unpack2_def
        stub_is_metashape_activated stub_run_metashape [where inp = inp and df = df]
        stub_extract_orthomosaic stub_extract_dem stub_update_camera_data
        stub_compare_camera_positions stub_pc_align_routine stub_apply_transform
        stub_nuth_kaab_align_routine stub_apply_nuth stub_export_aligned_orthomosaic
        stub_run_events_def lic inp tab ref
      cong: weak_congs)

lemma str_nat_0: "str_nat 0 = ''0''"
  by (simp add: str_nat.simps digit_char_def)

lemma str_nat_1: "str_nat (Suc 0) = ''1''"
  by (simp add: str_nat.simps digit_char_def)

lemma stub_run_not_activated:
  assumes "license_path (self w) \<noteq> VStr ''uw_agisoft.lic''"
  shows "run (stub_env east) rot ex w =
     (Inr VNone, w \<lparr> trace := trace w @ [Ext (Authentication (license_path (self w)))] \<rparr>)"
  unfolding run_def using assms
  by (simp add: bind_def get_self_def return_def stub_is_metashape_activated cong: weak_congs)

lemma stub_run_bad_input:
  assumes "license_path (self w) = VStr ''uw_agisoft.lic''"
    and "\<forall>path. input_images_metadata_file (self w) \<noteq> VStr path"
  shows "run (stub_env east) rot ex w =
     (Inl ValueError, w \<lparr> trace := trace w @ [Ext (Authentication (license_path (self w)))] \<rparr>)"
  unfolding run_def using assms
  by (cases "input_images_metadata_file (self w)")
     (simp_all add: bind_def get_self_def return_def read_csv_def stub_is_metashape_activated cong: weak_congs)

lemma iteration_unfold:
  "iteration env ex i rot w =
     (case run env rot ex (w \<lparr> self := update_output_paths (iteration_path (self w) i) (self w) \<rparr>) of
        (Inl e, w') \<Rightarrow> (Inl e, w')
      | (Inr u, w') \<Rightarrow> (Inr u, w' \<lparr> self := set_input_images_metadata_file u (self w') \<rparr>))"
  by (simp add: iteration_eq bind_def get_self_def modify_self_def return_def
        split: prod.splits sum.splits)

lemma stub_pipeline_fields:
  "license_path (stub_pipeline lic r) = lic"
  "input_images_metadata_file (stub_pipeline lic r) = VStr ''cameras.csv''"
  "reference_dem (stub_pipeline lic r) = VStr ''reference_dem.tif''"
  "original_output_path (stub_pipeline lic r) = ''out''"
  "output_path (stub_pipeline lic r) = ''out''"
  "rotation_enabled (stub_pipeline lic r) = r"
  "clipped_reference_dem_file (stub_pipeline lic r) = ''out/reference_dem_clipped.tif''"
  "nuthed_aligned_bundle_adjusted_metadata_file (stub_pipeline lic r) = ''out/nuth_aligned_bundle_adj_metadata.csv''"
  "bundle_adjusted_metadata_file (stub_pipeline lic r) = ''out/metaflow_bundle_adj_metadata.csv''"
  "bundle_adjusted_unaligned_metadata_file (stub_pipeline lic r) =
     ''out/metaflow_bundle_adj_unaligned_metadata.csv''"
  "aligned_bundle_adjusted_metadata_file (stub_pipeline lic r) =
     ''out/aligned_bundle_adj_metadata.csv''"
  by (simp_all add: stub_pipeline_def init_pipeline_def path_join_def)

lemma update_output_paths_fields:
  "license_path (update_output_paths np p) = license_path p"
  "input_images_metadata_file (update_output_paths np p) = input_images_metadata_file p"
  "reference_dem (update_output_paths np p) = reference_dem p"
  "original_output_path (update_output_paths np p) = original_output_path p"
  "rotation_enabled (update_output_paths np p) = rotation_enabled p"
  "clipped_reference_dem_file (update_output_paths np p) = clipped_reference_dem_file p"
  "output_path (update_output_paths np p) = np"
  by (simp_all add: update_output_paths_def)

lemma stub_iteration_path: "iteration_path (stub_pipeline lic r) 0 = ''out/0/''"
  "iteration_path (stub_pipeline lic r) 1 = ''out/1/''"
  by (simp_all add: iteration_path_def stub_pipeline_fields path_join_def str_nat_0 str_nat_1)

lemma stub_world_fields:
  "self (stub_world lic r) = stub_pipeline lic r"
  "fs (stub_world lic r) ''cameras.csv'' = Some stub_input"
  "trace (stub_world lic r) = []"
  by (simp_all add: stub_world_def)


lemma stub_run_world:
  "run (stub_env east) rot ex (stub_world LIC r) =
     (Inr (VTuple [VStr ''out/nuth_aligned_bundle_adj_metadata.csv'', VDf []]),
      (stub_world LIC r) \<lparr> fs := (fs (stub_world LIC r))(''cameras.csv'' \<mapsto> zero_yaw_pitch_roll stub_input,
                      bundle_adjusted_metadata_file (stub_pipeline LIC r) \<mapsto> stub_cameras,
                      bundle_adjusted_unaligned_metadata_file (stub_pipeline LIC r) \<mapsto> [],
                      aligned_bundle_adjusted_metadata_file (stub_pipeline LIC r) \<mapsto> stub_cameras),
          trace := stub_run_events east rot ex (stub_pipeline LIC r) ''cameras.csv'' stub_input \<rparr>)"
  using stub_run [of "stub_world LIC r" "''cameras.csv''" stub_input east rot ex]
  by (simp add: stub_world_fields stub_pipeline_fields)

lemma set_input_fields:
  "license_path (set_input_images_metadata_file u p) = license_path p"
  "input_images_metadata_file (set_input_images_metadata_file u p) = u"
  "original_output_path (set_input_images_metadata_file u p) = original_output_path p"
  by (simp_all add: set_input_images_metadata_file_def)

lemma stub_iteration:
  assumes lic: "license_path (self w) = VStr ''uw_agisoft.lic''"
    and inp: "input_images_metadata_file (self w) = VStr inp"
    and tab: "fs w inp = Some df"
    and ref: "reference_dem (self w) = VStr ''reference_dem.tif''"
    and p': "p' = update_output_paths (iteration_path (self w) i) (self w)"
  shows "iteration (stub_env east) ex i rot w =
     (Inr (VTuple [VStr (nuthed_aligned_bundle_adjusted_metadata_file p'), VDf []]),
      w \<lparr> self := set_input_images_metadata_file
                   (VTuple [VStr (nuthed_aligned_bundle_adjusted_metadata_file p'), VDf []]) p',
          fs := (fs w)(inp \<mapsto> zero_yaw_pitch_roll df,
                      bundle_adjusted_metadata_file p' \<mapsto> stub_cameras,
                      bundle_adjusted_unaligned_metadata_file p' \<mapsto> [],
                      aligned_bundle_adjusted_metadata_file p' \<mapsto> stub_cameras),
          trace := trace w @ stub_run_events east rot ex p' inp df \<rparr>)"
proof -
  let ?w = "w \<lparr> self := p' \<rparr>"
  have "run (stub_env east) rot ex ?w =
     (Inr (VTuple [VStr (nuthed_aligned_bundle_adjusted_metadata_file (self ?w)), VDf []]),
      ?w \<lparr> fs := (fs ?w)(inp \<mapsto> zero_yaw_pitch_roll df,
                      bundle_adjusted_metadata_file (self ?w) \<mapsto> stub_cameras,
                      bundle_adjusted_unaligned_metadata_file (self ?w) \<mapsto> [],
                      aligned_bundle_adjusted_metadata_file (self ?w) \<mapsto> stub_cameras),
          trace := trace ?w @ stub_run_events east rot ex (self ?w) inp df \<rparr>)"
    by (rule stub_run) (simp_all add: p' update_output_paths_fields lic inp tab ref)
  then show ?thesis
    by (simp add: iteration_unfold p' [symmetric])
qed

lemma stub_iteration_not_activated:
  assumes "license_path (self w) \<noteq> VStr ''uw_agisoft.lic''"
    and p': "p' = update_output_paths (iteration_path (self w) i) (self w)"
  shows "iteration (stub_env east) ex i rot w =
     (Inr VNone, w \<lparr> self := set_input_images_metadata_file VNone p',
                     trace := trace w @ [Ext (Authentication (license_path (self w)))] \<rparr>)"
proof -
  let ?w = "w \<lparr> self := p' \<rparr>"
  have "run (stub_env east) rot ex ?w =
     (Inr VNone, ?w \<lparr> trace := trace ?w @ [Ext (Authentication (license_path (self ?w)))] \<rparr>)"
    by (rule stub_run_not_activated) (simp add: p' update_output_paths_fields assms(1))
  then show ?thesis
    by (simp add: iteration_unfold p' [symmetric]) (simp add: p' update_output_paths_fields)
qed

lemma stub_iteration_bad_input:
  assumes "license_path (self w) = VStr ''uw_agisoft.lic''"
    and "\<forall>path. input_images_metadata_file (self w) \<noteq> VStr path"
    and p': "p' = update_output_paths (iteration_path (self w) i) (self w)"
  shows "iteration (stub_env east) ex i rot w =
     (Inl ValueError, w \<lparr> self := p',
                     trace := trace w @ [Ext (Authentication (license_path (self w)))] \<rparr>)"
proof -
  let ?w = "w \<lparr> self := p' \<rparr>"
  have "run (stub_env east) rot ex ?w =
     (Inl ValueError, ?w \<lparr> trace := trace ?w @ [Ext (Authentication (license_path (self ?w)))] \<rparr>)"
    by (rule stub_run_bad_input) (simp_all add: p' update_output_paths_fields assms(1,2))
  then show ?thesis
    by (simp add: iteration_unfold p' [symmetric]) (simp add: p' update_output_paths_fields)
qed

lemma stub_pipeline_0_fields:
  "nuthed_aligned_bundle_adjusted_metadata_file (stub_pipeline_0 lic r) = ''out/0/nuth_aligned_bundle_adj_metadata.csv''"
  "bundle_adjusted_metadata_file (stub_pipeline_0 lic r) = ''out/0/metaflow_bundle_adj_metadata.csv''"
  "bundle_adjusted_unaligned_metadata_file (stub_pipeline_0 lic r) = ''out/0/metaflow_bundle_adj_unaligned_metadata.csv''"
  "aligned_bundle_adjusted_metadata_file (stub_pipeline_0 lic r) = ''out/0/aligned_bundle_adj_metadata.csv''"
  "clipped_reference_dem_file (stub_pipeline_0 lic r) = ''out/reference_dem_clipped.tif''"
  "output_path (stub_pipeline_0 lic r) = ''out/0/''"
  "license_path (stub_pipeline_0 lic r) = lic"
  "reference_dem (stub_pipeline_0 lic r) = VStr ''reference_dem.tif''"
  "original_output_path (stub_pipeline_0 lic r) = ''out''"
  by (simp_all add: stub_pipeline_0_def update_output_paths_def stub_pipeline_def init_pipeline_def path_join_def)

lemma py_range_simps: "py_range 0 = []" "py_range 1 = [0]" "py_range 2 = [0, Suc 0]"
  by (simp_all add: py_range_def upt_rec)

lemma stub_run_multi_1:
  "run_multi (stub_env east) 1 ex (stub_world LIC r) =
     (Inr (VTuple [VStr ''out/0/nuth_aligned_bundle_adj_metadata.csv'', VDf []]),
      (stub_world LIC r) \<lparr> self := set_input_images_metadata_file
                   (VTuple [VStr ''out/0/nuth_aligned_bundle_adj_metadata.csv'', VDf []]) (stub_pipeline_0 LIC r),
          fs := (fs (stub_world LIC r))(''cameras.csv'' \<mapsto> zero_yaw_pitch_roll stub_input,
                      ''out/0/metaflow_bundle_adj_metadata.csv'' \<mapsto> stub_cameras,
                      ''out/0/metaflow_bundle_adj_unaligned_metadata.csv'' \<mapsto> [],
                      ''out/0/aligned_bundle_adj_metadata.csv'' \<mapsto> stub_cameras),
          trace := stub_run_events east r ex (stub_pipeline_0 LIC r) ''cameras.csv'' stub_input \<rparr>)"
proof -
  have p': "stub_pipeline_0 LIC r = update_output_paths (iteration_path (self (stub_world LIC r)) 0) (self (stub_world LIC r))"
    by (simp add: stub_pipeline_0_def stub_world_fields stub_iteration_path)
  have it: "iteration (stub_env east) ex 0 r (stub_world LIC r) = 
     (Inr (VTuple [VStr (nuthed_aligned_bundle_adjusted_metadata_file (stub_pipeline_0 LIC r)), VDf []]),
      (stub_world LIC r) \<lparr> self := set_input_images_metadata_file
                   (VTuple [VStr (nuthed_aligned_bundle_adjusted_metadata_file (stub_pipeline_0 LIC r)), VDf []]) (stub_pipeline_0 LIC r),
          fs := (fs (stub_world LIC r))(''cameras.csv'' \<mapsto> zero_yaw_pitch_roll stub_input,
                      bundle_adjusted_metadata_file (stub_pipeline_0 LIC r) \<mapsto> stub_cameras,
                      bundle_adjusted_unaligned_metadata_file (stub_pipeline_0 LIC r) \<mapsto> [],
                      aligned_bundle_adjusted_metadata_file (stub_pipeline_0 LIC r) \<mapsto> stub_cameras),
          trace := trace (stub_world LIC r) @ stub_run_events east r ex (stub_pipeline_0 LIC r) ''cameras.csv'' stub_input \<rparr>)"
    by (rule stub_iteration [OF _ _ _ _ p']) (simp_all add: stub_world_fields stub_pipeline_fields)
  show ?thesis
    by (simp add: run_multi_eq py_range_simps bind_def get_self_def return_def it stub_pipeline_0_fields
          stub_world_fields stub_pipeline_fields)
qed

lemma stub_iteration_path_1:
  "iteration_path (set_input_images_metadata_file u (stub_pipeline_0 lic r)) (Suc 0) = ''out/1/''"
  by (simp add: iteration_path_def set_input_fields stub_pipeline_0_fields path_join_def str_nat_1)

lemma stub_run_multi_2:
  "run_multi (stub_env east) 2 ex (stub_world LIC r) =
     (Inl ValueError,
      (stub_world LIC r) \<lparr> self := update_output_paths ''out/1/'' (set_input_images_metadata_file
                   (VTuple [VStr ''out/0/nuth_aligned_bundle_adj_metadata.csv'', VDf []]) (stub_pipeline_0 LIC r)),
          fs := (fs (stub_world LIC r))(''cameras.csv'' \<mapsto> zero_yaw_pitch_roll stub_input,
                      ''out/0/metaflow_bundle_adj_metadata.csv'' \<mapsto> stub_cameras,
                      ''out/0/metaflow_bundle_adj_unaligned_metadata.csv'' \<mapsto> [],
                      ''out/0/aligned_bundle_adj_metadata.csv'' \<mapsto> stub_cameras),
          trace := stub_run_events east r ex (stub_pipeline_0 LIC r) ''cameras.csv'' stub_input
                   @ [Ext (Authentication LIC)] \<rparr>)"
proof -
  let ?u = "VTuple [VStr ''out/0/nuth_aligned_bundle_adj_metadata.csv'', VDf []] :: int val"
  let ?w1 = "(stub_world LIC r) \<lparr> self := set_input_images_metadata_file ?u (stub_pipeline_0 LIC r),
          fs := (fs (stub_world LIC r))(''cameras.csv'' \<mapsto> zero_yaw_pitch_roll stub_input,
                      ''out/0/metaflow_bundle_adj_metadata.csv'' \<mapsto> stub_cameras,
                      ''out/0/metaflow_bundle_adj_unaligned_metadata.csv'' \<mapsto> [],
                      ''out/0/aligned_bundle_adj_metadata.csv'' \<mapsto> stub_cameras),
          trace := stub_run_events east r ex (stub_pipeline_0 LIC r) ''cameras.csv'' stub_input \<rparr>"
  have p': "stub_pipeline_0 LIC r =
      update_output_paths (iteration_path (self (stub_world LIC r)) 0) (self (stub_world LIC r))"
    by (simp add: stub_pipeline_0_def stub_world_fields stub_iteration_path)
  have it0: "iteration (stub_env east) ex 0 r (stub_world LIC r) = (Inr ?u, ?w1)"
    using stub_iteration [OF _ _ _ _ p', of "''cameras.csv''" stub_input east ex r]
    by (simp add: stub_world_fields stub_pipeline_fields stub_pipeline_0_fields)
  have it1: "iteration (stub_env east) ex (Suc 0) False ?w1 =
      (Inl ValueError, ?w1 \<lparr> self := update_output_paths ''out/1/'' (self ?w1),
                     trace := trace ?w1 @ [Ext (Authentication (license_path (self ?w1)))] \<rparr>)"
    by (rule stub_iteration_bad_input)
       (simp_all add: set_input_fields stub_pipeline_0_fields stub_iteration_path_1)
  show ?thesis
    by (simp add: run_multi_eq py_range_simps bind_def get_self_def it0 it1
          set_input_fields stub_pipeline_0_fields stub_world_fields stub_pipeline_fields)
qed

lemma stub_run_multi_2_not_activated:
  "run_multi (stub_env east) 2 ex (stub_world VNone r) =
     (Inr VNone,
      (stub_world VNone r) \<lparr> self := set_input_images_metadata_file VNone
             (update_output_paths ''out/1/'' (set_input_images_metadata_file VNone (stub_pipeline_0 VNone r))),
          trace := [Ext (Authentication VNone), Ext (Authentication VNone)] \<rparr>)"
proof -
  let ?w1 = "(stub_world VNone r) \<lparr> self := set_input_images_metadata_file VNone (stub_pipeline_0 VNone r),
          trace := [Ext (Authentication VNone)] \<rparr>"
  have p': "stub_pipeline_0 VNone r =
      update_output_paths (iteration_path (self (stub_world VNone r)) 0) (self (stub_world VNone r))"
    by (simp add: stub_pipeline_0_def stub_world_fields stub_iteration_path)
  have it0: "iteration (stub_env east) ex 0 r (stub_world VNone r) = (Inr VNone, ?w1)"
    using stub_iteration_not_activated [OF _ p', of east ex r]
    by (simp add: stub_world_fields stub_pipeline_fields)
  have it1: "iteration (stub_env east) ex (Suc 0) False ?w1 =
      (Inr VNone, ?w1 \<lparr> self := set_input_images_metadata_file VNone
                              (update_output_paths ''out/1/'' (self ?w1)),
                     trace := trace ?w1 @ [Ext (Authentication (license_path (self ?w1)))] \<rparr>)"
    by (rule stub_iteration_not_activated)
       (simp_all add: set_input_fields stub_pipeline_0_fields stub_iteration_path_1)
  show ?thesis
    by (simp add: run_multi_eq py_range_simps bind_def get_self_def return_def it0 it1
          set_input_fields stub_pipeline_0_fields stub_world_fields stub_pipeline_fields)
qed

section \<open>Events of an iteration and of the loop\<close>

lemma run_trace:
  "self (snd (run env rot ex w)) = self w
   \<and> (\<exists>es. trace (snd (run env rot ex w)) = trace w @ es
          \<and> list_all (run_event_ok (self w) rot) es)
   \<and> (\<forall>u. fst (run env rot ex w) = Inr u \<longrightarrow> run_result_ok (self w) u)"
  using run_obeys [of "self w" rot env ex] by (simp add: obeys_def)

lemma iteration_trace:
  assumes p': "p' = update_output_paths (iteration_path (self w) i) (self w)"
  shows "(self (snd (iteration env ex i rot w)) = p'
          \<or> (\<exists>u. self (snd (iteration env ex i rot w)) = set_input_images_metadata_file u p'))
   \<and> (\<exists>es. trace (snd (iteration env ex i rot w)) = trace w @ es
          \<and> list_all (run_event_ok p' rot) es)"
proof -
  let ?w = "w \<lparr> self := p' \<rparr>"
  obtain r w' where run: "run env rot ex ?w = (r, w')"
    by (cases "run env rot ex ?w")
  from run_trace [of env rot ex ?w] run obtain es where
    1: "self w' = p'" "trace w' = trace w @ es" "list_all (run_event_ok p' rot) es"
    by auto
  show ?thesis
    using 1 run by (cases r) (auto simp: iteration_unfold p' [symmetric])
qed

lemma iteration_original_output_path:
  "original_output_path (self (snd (iteration env ex i rot w))) = original_output_path (self w)"
  using iteration_trace [OF refl, of env ex i rot w]
  by (auto simp: update_output_paths_fields set_input_fields)

lemma run_multi_loop_flags:
  "\<exists>es. trace (snd (run_multi_loop env ex [k..<n] rot u w)) = trace w @ es
      \<and> (\<forall>pn ip im out acc q r cm. Ext (Images2las pn ip im out acc q r cm) \<in> set es \<longrightarrow>
            (\<exists>i. k \<le> i \<and> i < n \<and> out = iteration_path (self w) i
                 \<and> r = (if i = k then rot else False)))"
proof (induction "n - k" arbitrary: k rot u w)
  case 0
  then show ?case by simp
next
  case (Suc d)
  then have kn: "k < n" and d: "d = n - Suc k" by simp_all
  have upt: "[k..<n] = k # [Suc k..<n]"
    using kn by (simp add: upt_rec)
  let ?p' = "update_output_paths (iteration_path (self w) k) (self w)"
  obtain r w' where it: "iteration env ex k rot w = (r, w')"
    by (cases "iteration env ex k rot w")
  from iteration_trace [OF refl, of env ex k rot w] it obtain es where
    es: "trace w' = trace w @ es" "list_all (run_event_ok ?p' rot) es"
    by auto
  have orig: "original_output_path (self w') = original_output_path (self w)"
    using iteration_original_output_path [of env ex k rot w] it by simp
  have first: "\<exists>i. k \<le> i \<and> i < n \<and> out = iteration_path (self w) i \<and> r' = (if i = k then rot else False)"
    if "Ext (Images2las pn ip im out acc q r' cm) \<in> set es" for pn ip im out acc q r' cm
  proof -
    from that es(2) have "run_event_ok ?p' rot (Ext (Images2las pn ip im out acc q r' cm))"
      unfolding list_all_iff by blast
    then have "out = iteration_path (self w) k" "r' = rot"
      by (simp_all add: update_output_paths_fields)
    then show ?thesis using kn by auto
  qed
  show ?case
  proof (cases r)
    case (Inl e)
    then have "trace (snd (run_multi_loop env ex [k..<n] rot u w)) = trace w @ es"
      using it es by (simp add: upt)
    then show ?thesis using first by blast
  next
    case (Inr v)
    from Suc.hyps(1) [OF d, of False "Some v" w'] obtain es2 where
      es2: "trace (snd (run_multi_loop env ex [Suc k..<n] False (Some v) w')) = trace w' @ es2"
        "\<forall>pn ip im out acc q r cm. Ext (Images2las pn ip im out acc q r cm) \<in> set es2 \<longrightarrow>
            (\<exists>i. Suc k \<le> i \<and> i < n \<and> out = iteration_path (self w') i
                 \<and> r = (if i = Suc k then False else False))"
      by blast
    have path: "iteration_path (self w') i = iteration_path (self w) i" for i
      by (simp add: iteration_path_def orig)
    have "trace (snd (run_multi_loop env ex [k..<n] rot u w)) = trace w @ (es @ es2)"
      using it Inr es es2(1) by (simp add: upt)
    moreover have "\<exists>i. k \<le> i \<and> i < n \<and> out = iteration_path (self w) i \<and> r' = (if i = k then rot else False)"
    if "Ext (Images2las pn ip im out acc q r' cm) \<in> set (es @ es2)" for pn ip im out acc q r' cm
    proof (cases "Ext (Images2las pn ip im out acc q r' cm) \<in> set es")
      case True
      then show ?thesis by (rule first)
    next
      case False
      with that have "Ext (Images2las pn ip im out acc q r' cm) \<in> set es2" by simp
      with es2(2) obtain i where "Suc k \<le> i" "i < n" "out = iteration_path (self w') i" "r' = False"
        by fastforce
      then show ?thesis by (auto simp: path)
    qed
    ultimately show ?thesis by blast
  qed
qed

lemma run_multi_world:
  "snd (run_multi env iterations ex w) =
     snd (run_multi_loop env ex (py_range iterations) (rotation_enabled (self w)) None w)"
  by (simp add: run_multi_eq bind_def get_self_def raise_def return_def
        split: prod.splits sum.splits option.splits)

lemma iteration_with_unfold:
  "iteration_with run' ex i rot w =
     (case run' rot ex (w \<lparr> self := update_output_paths (iteration_path (self w) i) (self w) \<rparr>) of
        (Inl e, w') \<Rightarrow> (Inl e, w')
      | (Inr u, w') \<Rightarrow> (Inr u, w' \<lparr> self := set_input_images_metadata_file u (self w') \<rparr>))"
  by (simp add: iteration_with_def bind_def get_self_def modify_self_def return_def
        split: prod.splits sum.splits)

lemma iteration_with_trace:
  assumes runner: "\<And>rot w. original_output_path (self (snd (run' rot ex w))) = original_output_path (self w)
            \<and> (\<exists>es. trace (snd (run' rot ex w)) = trace w @ es
                   \<and> list_all (Q rot (output_path (self w))) es)"
  shows "original_output_path (self (snd (iteration_with run' ex i rot w))) = original_output_path (self w)
     \<and> (\<exists>es. trace (snd (iteration_with run' ex i rot w)) = trace w @ es
            \<and> list_all (Q rot (iteration_path (self w) i)) es)"
proof -
  let ?w = "w \<lparr> self := update_output_paths (iteration_path (self w) i) (self w) \<rparr>"
  obtain r w' where run: "run' rot ex ?w = (r, w')"
    by (cases "run' rot ex ?w")
  from runner [of rot ?w] run obtain es where
    1: "original_output_path (self w') = original_output_path (self w)"
       "trace w' = trace w @ es" "list_all (Q rot (iteration_path (self w) i)) es"
    by (auto simp: update_output_paths_fields)
  show ?thesis
    using 1 run by (cases r) (auto simp: iteration_with_unfold set_input_fields)
qed

lemma run_multi_loop_with_flags:
  assumes runner: "\<And>rot w. original_output_path (self (snd (run' rot ex w))) = original_output_path (self w)
            \<and> (\<exists>es. trace (snd (run' rot ex w)) = trace w @ es
                   \<and> list_all (Q rot (output_path (self w))) es)"
  shows "\<exists>es. trace (snd (run_multi_loop_with run' ex [k..<n] rot u w)) = trace w @ es
      \<and> (\<forall>e \<in> set es. \<exists>i. k \<le> i \<and> i < n
             \<and> Q (if i = k then rot else False) (iteration_path (self w) i) e)"
proof (induction "n - k" arbitrary: k rot u w)
  case 0
  then show ?case by simp
next
  case (Suc d)
  then have kn: "k < n" and d: "d = n - Suc k" by simp_all
  have upt: "[k..<n] = k # [Suc k..<n]"
    using kn by (simp add: upt_rec)
  obtain r w' where it: "iteration_with run' ex k rot w = (r, w')"
    by (cases "iteration_with run' ex k rot w")
  from iteration_with_trace [of run' ex Q k rot w, OF runner] it obtain es where
    orig: "original_output_path (self w') = original_output_path (self w)"
    and es: "trace w' = trace w @ es" "list_all (Q rot (iteration_path (self w) k)) es"
    by auto
  have first: "\<exists>i. k \<le> i \<and> i < n \<and> Q (if i = k then rot else False) (iteration_path (self w) i) e"
    if "e \<in> set es" for e
  proof -
    from that es(2) have "Q rot (iteration_path (self w) k) e"
      unfolding list_all_iff by blast
    then show ?thesis using kn by auto
  qed
  show ?case
  proof (cases r)
    case (Inl e)
    then have "trace (snd (run_multi_loop_with run' ex [k..<n] rot u w)) = trace w @ es"
      using it es by (simp add: upt)
    then show ?thesis using first by blast
  next
    case (Inr v)
    from Suc.hyps(1) [OF d, of False "Some v" w'] obtain es2 where
      es2: "trace (snd (run_multi_loop_with run' ex [Suc k..<n] False (Some v) w')) = trace w' @ es2"
        "\<forall>e \<in> set es2. \<exists>i. Suc k \<le> i \<and> i < n
             \<and> Q (if i = Suc k then False else False) (iteration_path (self w') i) e"
      by blast
    have path: "iteration_path (self w') i = iteration_path (self w) i" for i
      by (simp add: iteration_path_def orig)
    have "trace (snd (run_multi_loop_with run' ex [k..<n] rot u w)) = trace w @ (es @ es2)"
      using it Inr es es2(1) by (simp add: upt)
    moreover have "\<exists>i. k \<le> i \<and> i < n \<and> Q (if i = k then rot else False) (iteration_path (self w) i) e"
      if "e \<in> set (es @ es2)" for e
    proof (cases "e \<in> set es")
      case True
      then show ?thesis by (rule first)
    next
      case False
      with that have "e \<in> set es2" by simp
      with es2(2) obtain i where i: "Suc k \<le> i" "i < n" "Q False (iteration_path (self w') i) e"
        by fastforce
      then have "k \<le> i \<and> i < n \<and> Q (if i = k then rot else False) (iteration_path (self w) i) e"
        by (simp add: path)
      then show ?thesis by blast
    qed
    ultimately show ?thesis by blast
  qed
qed

lemma run_multi_with_world:
  "snd (run_multi_with run' iterations ex w) =
     snd (run_multi_loop_with run' ex (py_range iterations) (rotation_enabled (self w)) None w)"
  by (simp add: run_multi_with_def bind_def get_self_def raise_def return_def
        split: prod.splits sum.splits option.splits)

lemma run_multi_with_flags:
  assumes runner: "\<And>rot w. original_output_path (self (snd (run' rot ex w))) = original_output_path (self w)
            \<and> (\<exists>es. trace (snd (run' rot ex w)) = trace w @ es
                   \<and> list_all (Q rot (output_path (self w))) es)"
  shows "\<exists>es. trace (snd (run_multi_with run' iterations ex w)) = trace w @ es
      \<and> (\<forall>e \<in> set es. \<exists>i < nat iterations.
             Q (if i = 0 then rotation_enabled (self w) else False) (iteration_path (self w) i) e)"
  using run_multi_loop_with_flags [of run' ex Q 0 "nat iterations" "rotation_enabled (self w)" None w, OF runner]
  by (simp add: run_multi_with_world py_range_def)

lemmas stub_pipeline_unfold = stub_pipeline_0_def update_output_paths_def stub_pipeline_def
  init_pipeline_def path_join_def

section \<open>Decimal numerals and iteration paths\<close>

lemma digit_char_less: "d < 10 \<Longrightarrow> digit_char d \<in> set ''0123456789''"
  unfolding digit_char_def by (rule nth_mem) simp

lemma digit_char_inj: "a < 10 \<Longrightarrow> b < 10 \<Longrightarrow> digit_char a = digit_char b \<Longrightarrow> a = b"
proof -
  assume a: "a < 10" and b: "b < 10" and eq: "digit_char a = digit_char b"
  have d: "distinct ''0123456789''" by simp
  have len: "length ''0123456789'' = 10" by simp
  from eq have "''0123456789'' ! a = ''0123456789'' ! b" by (simp add: digit_char_def)
  with d a b len show "a = b" by (metis nth_eq_iff_index_eq)
qed

lemma str_nat_nonempty: "str_nat n \<noteq> []"
  by (subst str_nat.simps) simp

lemma str_nat_digits: "set (str_nat n) \<subseteq> set ''0123456789''"
proof (induction n rule: str_nat.induct)
  case (1 n)
  show ?case
  proof (cases "n < 10")
    case True
    then show ?thesis
      using digit_char_less [of n] by (subst str_nat.simps) simp
  next
    case False
    have "n mod 10 < 10" by simp
    then have "digit_char (n mod 10) \<in> set ''0123456789''" by (rule digit_char_less)
    with False "1.IH" show ?thesis
      by (subst str_nat.simps) simp
  qed
qed

lemma str_nat_no_slash: "CHR ''/'' \<notin> set (str_nat n)"
  using str_nat_digits [of n] by auto

lemma str_nat_inj: "str_nat n = str_nat m \<Longrightarrow> n = m"
proof (induction n arbitrary: m rule: str_nat.induct)
  case (1 n)
  show ?case
  proof (cases "n < 10")
    case n: True
    show ?thesis
    proof (cases "m < 10")
      case True
      with n "1.prems" show ?thesis
        by (simp add: str_nat.simps [of n] str_nat.simps [of m] digit_char_inj)
    next
      case False
      with n "1.prems" str_nat_nonempty [of "m div 10"] show ?thesis
        by (simp add: str_nat.simps [of n] str_nat.simps [of m])
    qed
  next
    case n: False
    show ?thesis
    proof (cases "m < 10")
      case True
      with n "1.prems" str_nat_nonempty [of "n div 10"] show ?thesis
        by (simp add: str_nat.simps [of n] str_nat.simps [of m])
    next
      case False
      with n "1.prems" have eq: "str_nat (n div 10) = str_nat (m div 10)"
        and d: "digit_char (n mod 10) = digit_char (m mod 10)"
        by (simp_all add: str_nat.simps [of n] str_nat.simps [of m])
      from "1.IH" [OF n eq] have "n div 10 = m div 10" .
      moreover from d have "n mod 10 = m mod 10"
        by (intro digit_char_inj) simp_all
      ultimately show ?thesis
        by (metis div_mult_mod_eq)
    qed
  qed
qed

lemma slash_split:
  assumes "CHR ''/'' \<notin> set a" and "CHR ''/'' \<notin> set b"
    and "a @ CHR ''/'' # r1 = b @ CHR ''/'' # r2"
  shows "a = b"
  using assms
proof (induction a arbitrary: b)
  case Nil
  then show ?case by (cases b) auto
next
  case (Cons x a)
  then show ?case by (cases b) auto
qed

lemma iteration_path_eq: "iteration_path p i = iteration_base p @ str_nat i @ ''/''"
proof -
  have "hd (str_nat i @ ''/'') \<noteq> CHR ''/''"
    using str_nat_no_slash [of i] str_nat_nonempty [of i]
    by (cases "str_nat i") auto
  then show ?thesis
    by (simp add: iteration_path_def iteration_base_def path_join_def)
qed

lemma iteration_path_disjoint:
  assumes "prefix (iteration_path p i) x" and "prefix (iteration_path p j) x"
  shows "i = j"
proof -
  from assms(1) obtain r1 where 1: "x = iteration_path p i @ r1"
    by (auto simp: prefix_def)
  from assms(2) obtain r2 where 2: "x = iteration_path p j @ r2"
    by (auto simp: prefix_def)
  from 1 2 have "iteration_base p @ str_nat i @ CHR ''/'' # r1 =
                 iteration_base p @ str_nat j @ CHR ''/'' # r2"
    by (simp add: iteration_path_eq)
  then have "str_nat i @ CHR ''/'' # r1 = str_nat j @ CHR ''/'' # r2" by simp
  then have "str_nat i = str_nat j"
    by (rule slash_split [OF str_nat_no_slash str_nat_no_slash])
  then show ?thesis by (rule str_nat_inj)
qed

lemma path_join_below:
  assumes "np \<noteq> []" and "last np = CHR ''/''" and "name \<noteq> []" and "hd name \<noteq> CHR ''/''"
  shows "path_join np name = np @ name"
  using assms by (simp add: path_join_def)

lemma iteration_path_ends: "iteration_path p i \<noteq> []" "last (iteration_path p i) = CHR ''/''"
  by (simp_all add: iteration_path_eq)

lemma run_event_namespaced:
  assumes ok: "run_event_ok (update_output_paths np p) rot e"
    and path: "path \<in> set (output_locations e)"
    and np: "np \<noteq> []" "last np = CHR ''/''"
  shows "prefix np path
         \<or> (\<exists>df. e = ToCsv path df \<and> VStr path = input_images_metadata_file p)
         \<or> (\<exists>dem r v. e = Ext (ClipReferenceDem dem r path v))"
proof (cases e)
  case (Ext c)
  show ?thesis
    using ok path np unfolding Ext
    by (cases c) (auto simp: update_output_paths_def path_join_def)
next
  case (ToCsv path' df)
  show ?thesis
    using ok path np unfolding ToCsv
    by (auto simp: update_output_paths_def path_join_def)
qed

lemma stub_iteration_0:
  "iteration (stub_env east) ex 0 rot (stub_world LIC r) =
     (Inr (VTuple [VStr ''out/0/nuth_aligned_bundle_adj_metadata.csv'', VDf []]),
      (stub_world LIC r) \<lparr> self := set_input_images_metadata_file
                   (VTuple [VStr ''out/0/nuth_aligned_bundle_adj_metadata.csv'', VDf []])
                   (stub_pipeline_0 LIC r),
          fs := (fs (stub_world LIC r))(''cameras.csv'' \<mapsto> zero_yaw_pitch_roll stub_input,
                      ''out/0/metaflow_bundle_adj_metadata.csv'' \<mapsto> stub_cameras,
                      ''out/0/metaflow_bundle_adj_unaligned_metadata.csv'' \<mapsto> [],
                      ''out/0/aligned_bundle_adj_metadata.csv'' \<mapsto> stub_cameras),
          trace := stub_run_events east rot ex (stub_pipeline_0 LIC r) ''cameras.csv'' stub_input \<rparr>)"
proof -
  have p': "stub_pipeline_0 LIC r =
      update_output_paths (iteration_path (self (stub_world LIC r)) 0) (self (stub_world LIC r))"
    by (simp add: stub_pipeline_0_def stub_world_fields stub_iteration_path)
  show ?thesis
    using stub_iteration [OF _ _ _ _ p', of "''cameras.csv''" stub_input east ex rot]
    by (simp add: stub_world_fields stub_pipeline_fields stub_pipeline_0_fields)
qed

section \<open>The first writes of a run\<close>









section \<open>What \<open>run\<close> hands back to \<open>run_multi\<close>\<close>

text \<open>
  For every environment: a run whose authentication check does not report \<open>True\<close>
  returns \<open>None\<close> after that one call; whatever an iteration returns becomes the input
  metadata file, and it is never a path; and once one iteration has completed, the loop
  variable \<open>updated_cameras\<close> is bound.
\<close>

lemma run_not_activated:
  assumes "ext env (Authentication (license_path (self w))) (fs w, outside w) = (Inr v, (tables, out'))"
    and "v \<noteq> VBool True"
  shows "run env rot ex w =
     (Inr VNone, w \<lparr> fs := tables, outside := out',
                     trace := trace w @ [Ext (Authentication (license_path (self w)))] \<rparr>)"
  using assms
  by (simp add: run_def is_metashape_activated_def action_defs)

lemma iteration_feeds_run_result:
  assumes "fst (iteration env ex i rot w) = Inr u"
  shows "input_images_metadata_file (self (snd (iteration env ex i rot w))) = u
         \<and> (\<forall>path. u \<noteq> VStr path)"
proof -
  let ?w = "w \<lparr> self := update_output_paths (iteration_path (self w) i) (self w) \<rparr>"
  obtain r w' where run: "run env rot ex ?w = (r, w')"
    by (cases "run env rot ex ?w")
  with assms have r: "r = Inr u"
    by (cases r) (simp_all add: iteration_unfold)
  from run_trace [of env rot ex ?w] run r have "run_result_ok (self ?w) u"
    by simp
  then have "\<forall>path. u \<noteq> VStr path"
    by (auto simp: run_result_ok_def)
  moreover have "input_images_metadata_file (self (snd (iteration env ex i rot w))) = u"
    using run r by (simp add: iteration_unfold set_input_fields)
  ultimately show ?thesis by blast
qed

lemma run_multi_loop_bound:
  "fst (run_multi_loop env ex idx rot (Some v) w) \<noteq> Inr None"
proof (induction idx arbitrary: rot v w)
  case Nil
  show ?case by simp
next
  case (Cons i idx)
  show ?case
  proof (cases "iteration env ex i rot w")
    case (Pair r w')
    then show ?thesis
      using Cons.IH by (cases r) simp_all
  qed
qed

lemma run_multi_binds_after_first_iteration:
  assumes "0 < iterations"
  shows "fst (run_multi_loop env ex (py_range iterations) rot None w) \<noteq> Inr None"
proof -
  from assms obtain rest where idx: "py_range iterations = 0 # rest"
    by (auto simp: py_range_def upt_rec)
  show ?thesis
  proof (cases "iteration env ex 0 rot w")
    case (Pair r w')
    then show ?thesis
      using run_multi_loop_bound [of env ex rest False _ w'] by (cases r) (simp_all add: idx)
  qed
qed

lemma stub_sfm_only_run:
  "sfm_only_run (stub_env east) rot ex w =
     (Inr VNone,
      w \<lparr> trace := trace w @
            [Ext (Images2las (project_name (self w)) (input_images_path (self w))
                    (input_images_metadata_file (self w)) (output_path (self w))
                    (image_matching_accuracy (self w)) (densecloud_quality (self w))
                    rot (camera_models_path (self w)))] \<rparr>)"
  by (simp add: sfm_only_run_def action_defs stub_ext_defs)

lemma stub_sfm_only_run_multi_2:
  "trace (snd (run_multi_with (sfm_only_run (stub_env 0)) 2 True (stub_world LIC True))) =
     [Ext (Images2las (VStr ''test'') (VStr ''images'') (VStr ''cameras.csv'') ''out/0/''
             (VInt 4) (VInt 4) True VNone),
      Ext (Images2las (VStr ''test'') (VStr ''images'') VNone ''out/1/''
             (VInt 4) (VInt 4) False VNone)]"
  by (simp add: run_multi_with_def py_range_simps bind_def get_self_def return_def
        iteration_with_unfold stub_sfm_only_run iteration_path_def path_join_def
        str_nat_0 str_nat_1 update_output_paths_def set_input_images_metadata_file_def
        stub_pipeline_def init_pipeline_def stub_world_def)

section \<open>\<open>run_multi\<close> without iterations\<close>

text \<open>
  Claim C10. \<open>run_multi\<close> with \<open>iterations = 0\<close> returns no metadata path: the loop
  body never runs, \<open>updated_cameras\<close> is still unbound at the \<open>return\<close>, and the call
  raises \<open>UnboundLocalError\<close>, having done nothing. (With at least one iteration the
  variable is bound whenever the loop completes: \<open>run_multi_binds_after_first_iteration\<close>.)
\<close>

theorem run_multi_zero_iterations_unbound:
  "run_multi env 0 export_orthomosaic w = (Inl UnboundLocalError, w)"
  by (simp add: run_multi_eq py_range_simps bind_def get_self_def raise_def)

section \<open>One iteration of \<open>run_multi\<close> against a single \<open>run\<close>\<close>



section \<open>What the second iteration of \<open>run_multi\<close> is given\<close>

text \<open>
  Claim C1, evaluated on the test double with two iterations. \<open>run\<close> returns the pair of
  the co-registered path and the table of unaligned cameras, and \<open>run_multi\<close> makes that
  pair the input metadata file: the second iteration is handed the pair, not the path, and
  fails in \<open>pd.read_csv\<close> with \<open>ValueError\<close> right after its authentication check.
  (For every environment the value handed on is never a path:
  \<open>iteration_feeds_run_result\<close>.)
\<close>

theorem run_multi_second_iteration_gets_pair:
  "fst (run_multi (stub_env 0) 2 True (stub_world LIC True)) = Inl ValueError
   \<and> input_images_metadata_file (self (snd (run_multi (stub_env 0) 2 True (stub_world LIC True))))
       = VTuple [VStr ''out/0/nuth_aligned_bundle_adj_metadata.csv'', VDf []]
   \<and> last (trace (snd (run_multi (stub_env 0) 2 True (stub_world LIC True))))
       = Ext (Authentication LIC)"
  unfolding stub_run_multi_2
  by (simp add: update_output_paths_fields set_input_fields)

section \<open>Metashape not activated\<close>

text \<open>
  Claim C3, evaluated on the test double with a licence that does not activate Metashape
  and two iterations. \<open>run\<close> names \<open>exit\<close> without calling it and returns \<open>None\<close>,
  so \<open>run_multi\<close> goes on: it makes \<open>None\<close> the input metadata file, checks the
  authentication a second time in the second iteration, and returns \<open>None\<close> without
  raising. No stage runs and no table is written. (For every environment a run that is
  not activated returns \<open>None\<close>: \<open>run_not_activated\<close>.)
\<close>

theorem run_multi_not_activated_goes_on:
  "fst (run_multi (stub_env 0) 2 True (stub_world VNone True)) = Inr VNone
   \<and> trace (snd (run_multi (stub_env 0) 2 True (stub_world VNone True)))
       = [Ext (Authentication VNone), Ext (Authentication VNone)]
   \<and> input_images_metadata_file (self (snd (run_multi (stub_env 0) 2 True (stub_world VNone True))))
       = VNone
   \<and> fs (snd (run_multi (stub_env 0) 2 True (stub_world VNone True))) = fs (stub_world VNone True)"
  unfolding stub_run_multi_2_not_activated
  by (simp add: set_input_fields)

section \<open>The rotation flag across iterations\<close>

text \<open>
  Claim C6, as amended. \<open>run_multi\<close> calls the method \<open>run\<close> with the flag the
  pipeline was constructed with on iteration \<open>0\<close> and with \<open>False\<close> on every later
  iteration, and \<open>run\<close> hands the flag it is given to the SfM helper (\<open>images2las\<close>).
  First, for \<open>Pipeline.run\<close>: every call of the SfM helper during \<open>run_multi\<close> belongs
  to an iteration \<open>i\<close> below the number of iterations, writes below the path of that
  iteration, and carries the constructor's flag when \<open>i = 0\<close> and \<open>False\<close> otherwise.
  Second, \<open>run_multi\<close> is the loop \<open>run_multi_with\<close> on \<open>Pipeline.run\<close>. Third, for
  every method \<open>run'\<close> in the place of \<open>run\<close> that leaves \<open>original_output_path\<close>
  alone and whose events all satisfy \<open>Q rot out\<close>, where \<open>rot\<close> is the flag it was
  called with and \<open>out\<close> the output path of the object at the call: every event of the
  loop satisfies \<open>Q\<close> for the path of an iteration \<open>i\<close> and the flag of that iteration,
  the constructor's when \<open>i = 0\<close> and \<open>False\<close> otherwise.
\<close>

theorem run_multi_rotation_flags:
  "(\<exists>es. trace (snd (run_multi env iterations export_orthomosaic w)) = trace w @ es
      \<and> (\<forall>pn ip im out acc q r cm. Ext (Images2las pn ip im out acc q r cm) \<in> set es \<longrightarrow>
            (\<exists>i < nat iterations. out = iteration_path (self w) i
                 \<and> r = (if i = 0 then rotation_enabled (self w) else False))))
   \<and> run_multi env iterations export_orthomosaic w
       = run_multi_with (run env) iterations export_orthomosaic w
   \<and> ((\<forall>rot w'. original_output_path (self (snd (run' rot export_orthomosaic w')))
                    = original_output_path (self w')
                  \<and> (\<exists>es. trace (snd (run' rot export_orthomosaic w')) = trace w' @ es
                         \<and> list_all (Q rot (output_path (self w'))) es))
        \<longrightarrow> (\<exists>es. trace (snd (run_multi_with run' iterations export_orthomosaic w)) = trace w @ es
               \<and> (\<forall>e \<in> set es. \<exists>i < nat iterations.
                      Q (if i = 0 then rotation_enabled (self w) else False)
                        (iteration_path (self w) i) e)))"
proof (intro conjI impI)
  show "\<exists>es. trace (snd (run_multi env iterations export_orthomosaic w)) = trace w @ es
      \<and> (\<forall>pn ip im out acc q r cm. Ext (Images2las pn ip im out acc q r cm) \<in> set es \<longrightarrow>
            (\<exists>i < nat iterations. out = iteration_path (self w) i
                 \<and> r = (if i = 0 then rotation_enabled (self w) else False)))"
    using run_multi_loop_flags [of env export_orthomosaic 0 "nat iterations"
                                   "rotation_enabled (self w)" None w]
    by (simp add: run_multi_world py_range_def)
  show "run_multi env iterations export_orthomosaic w
       = run_multi_with (run env) iterations export_orthomosaic w"
    by (simp add: run_multi_def)
  assume "\<forall>rot w'. original_output_path (self (snd (run' rot export_orthomosaic w')))
                    = original_output_path (self w')
                  \<and> (\<exists>es. trace (snd (run' rot export_orthomosaic w')) = trace w' @ es
                         \<and> list_all (Q rot (output_path (self w'))) es)"
  then show "\<exists>es. trace (snd (run_multi_with run' iterations export_orthomosaic w)) = trace w @ es
               \<and> (\<forall>e \<in> set es. \<exists>i < nat iterations.
                      Q (if i = 0 then rotation_enabled (self w) else False)
                        (iteration_path (self w) i) e)"
    by (intro run_multi_with_flags) blast
qed

text \<open>
  On the test double, with a method that only calls the SfM helper with the flag it is
  given, two iterations and the default flag: the call of iteration \<open>0\<close> carries
  \<open>True\<close>, the call of iteration \<open>1\<close> carries \<open>False\<close>.
\<close>

theorem run_multi_rotation_flags_witness:
  "(\<forall>rot w'. original_output_path (self (snd (sfm_only_run (stub_env 0) rot True w')))
                    = original_output_path (self w')
                  \<and> (\<exists>es. trace (snd (sfm_only_run (stub_env 0) rot True w')) = trace w' @ es
                         \<and> list_all (sfm_call_with rot (output_path (self w'))) es))
   \<and> trace (snd (run_multi_with (sfm_only_run (stub_env 0)) 2 True (stub_world LIC True))) =
     [Ext (Images2las (VStr ''test'') (VStr ''images'') (VStr ''cameras.csv'') ''out/0/''
             (VInt 4) (VInt 4) True VNone),
      Ext (Images2las (VStr ''test'') (VStr ''images'') VNone ''out/1/''
             (VInt 4) (VInt 4) False VNone)]
   \<and> (\<exists>i < nat 2. sfm_call_with
                      (if i = 0 then rotation_enabled (self (stub_world LIC True)) else False)
                      (iteration_path (self (stub_world LIC True)) i)
                      (Ext (Images2las (VStr ''test'') (VStr ''images'') VNone ''out/1/''
                              (VInt 4) (VInt 4) False VNone) :: int event))
   \<and> iteration_path (self (stub_world LIC True)) 1 = ''out/1/''"
proof -
  let ?w = "stub_world LIC True"
  let ?e1 = "Ext (Images2las (VStr ''test'') (VStr ''images'') VNone ''out/1/''
                    (VInt 4) (VInt 4) False VNone) :: int event"
  have hyp: "\<forall>rot w'. original_output_path (self (snd (sfm_only_run (stub_env 0) rot True w')))
                    = original_output_path (self w')
                  \<and> (\<exists>es. trace (snd (sfm_only_run (stub_env 0) rot True w')) = trace w' @ es
                         \<and> list_all (sfm_call_with rot (output_path (self w'))) es)"
    by (simp add: stub_sfm_only_run)
  note tr = stub_sfm_only_run_multi_2
  from run_multi_rotation_flags
         [of "stub_env 0" 2 True ?w "sfm_only_run (stub_env 0)" sfm_call_with] hyp
  obtain es where
    es: "trace (snd (run_multi_with (sfm_only_run (stub_env 0)) 2 True ?w)) = trace ?w @ es"
    and flags: "\<forall>e \<in> set es. \<exists>i < nat 2.
                      sfm_call_with (if i = 0 then rotation_enabled (self ?w) else False)
                        (iteration_path (self ?w) i) e"
    by blast
  have "trace ?w = []"
    by (simp add: stub_world_fields)
  with es tr have "es = [Ext (Images2las (VStr ''test'') (VStr ''images'') (VStr ''cameras.csv'')
                             ''out/0/'' (VInt 4) (VInt 4) True VNone), ?e1]"
    by simp
  then have "?e1 \<in> set es"
    by simp
  with flags have "\<exists>i < nat 2. sfm_call_with
                      (if i = 0 then rotation_enabled (self ?w) else False)
                      (iteration_path (self ?w) i) ?e1"
    by blast
  moreover have "iteration_path (self ?w) 1 = ''out/1/''"
    by (simp add: stub_world_fields iteration_path_def stub_pipeline_fields path_join_def
          str_nat_1)
  ultimately show ?thesis
    using hyp tr by (intro conjI)
qed

text \<open>
  Claim C6 as stated fails: for a pipeline constructed with \<open>rotation_enabled = False\<close>,
  the SfM call of iteration \<open>0\<close> carries \<open>False\<close>.
\<close>

theorem rotation_flag_follows_constructor:
  "Ext (Images2las (VStr ''test'') (VStr ''images'') (VStr ''cameras.csv'') ''out/0/''
          (VInt 4) (VInt 4) False VNone)
     \<in> set (trace (snd (run_multi (stub_env 0) 1 True (stub_world LIC False))))"
  unfolding stub_run_multi_1
  by (simp add: stub_run_events_def stub_pipeline_unfold)

section \<open>The shift of the co-registration\<close>

text \<open>
  The row-wise update of \<open>__apply_nuth_transform_and_update_camera_data\<close> is the
  operation of the specification with the shift's CRS fixed to \<open>EPSG:32610\<close> and the
  snapshot's CRS to \<open>EPSG:4326\<close>, whatever CRS the shift is expressed in.
\<close>

lemma apply_nuth_transform_fixed_crs:
  "apply_nuth_transform g s df = spec_apply_shift g ''EPSG:4326'' ''EPSG:32610'' s df"
  by (simp add: apply_nuth_transform_def apply_nuth_transform_row_def spec_apply_shift_def
        Let_def split: prod.splits)


section \<open>Output paths per iteration\<close>

text \<open>
  Claim C5, as amended. In the turn of the loop of \<open>run_multi\<close> for the index \<open>i\<close>,
  every output location handed to a helper and every table the orchestrator writes lies
  below \<open>original_output_path/i/\<close>, except the clipped reference DEM and the rewrite of
  that turn's input snapshot at its own path; so does the path of the co-registered table
  that the turn returns; and no path lies below the directories of two different indices.
\<close>

theorem iteration_outputs_namespaced:
  "(\<exists>es. trace (snd (iteration env export_orthomosaic i rot w)) = trace w @ es
       \<and> (\<forall>e \<in> set es. \<forall>path \<in> set (output_locations e).
             prefix (iteration_path (self w) i) path
             \<or> (\<exists>df. e = ToCsv path df \<and> VStr path = input_images_metadata_file (self w))
             \<or> (\<exists>dem r v. e = Ext (ClipReferenceDem dem r path v))))
   \<and> prefix (iteration_path (self w) i)
       (nuthed_aligned_bundle_adjusted_metadata_file
          (update_output_paths (iteration_path (self w) i) (self w)))
   \<and> (\<forall>j x. j \<noteq> i \<longrightarrow> prefix (iteration_path (self w) i) x
          \<longrightarrow> \<not> prefix (iteration_path (self w) j) x)"
proof -
  have nuthed: "prefix (iteration_path (self w) i)
       (nuthed_aligned_bundle_adjusted_metadata_file
          (update_output_paths (iteration_path (self w) i) (self w)))"
    using iteration_path_ends [of "self w" i]
    by (simp add: update_output_paths_def path_join_def)
  from iteration_trace [OF refl, of env export_orthomosaic i rot w] obtain es where
    es: "trace (snd (iteration env export_orthomosaic i rot w)) = trace w @ es"
    and ok: "list_all (run_event_ok (update_output_paths (iteration_path (self w) i) (self w)) rot) es"
    by blast
  have "prefix (iteration_path (self w) i) path
        \<or> (\<exists>df. e = ToCsv path df \<and> VStr path = input_images_metadata_file (self w))
        \<or> (\<exists>dem r v. e = Ext (ClipReferenceDem dem r path v))"
    if "e \<in> set es" "path \<in> set (output_locations e)" for e path
  proof -
    from that(1) ok
    have "run_event_ok (update_output_paths (iteration_path (self w) i) (self w)) rot e"
      unfolding list_all_iff by blast
    then show ?thesis
      using that(2) iteration_path_ends by (rule run_event_namespaced)
  qed
  with es nuthed iteration_path_disjoint show ?thesis by blast
qed

text \<open>
  On the test double: the bundle-adjusted table of iteration \<open>0\<close> is written below
  \<open>out/0/\<close>, and not below the directory of iteration \<open>1\<close>.
\<close>

theorem iteration_outputs_namespaced_witness:
  "ToCsv ''out/0/metaflow_bundle_adj_metadata.csv'' stub_cameras
     \<in> set (trace (snd (iteration (stub_env 0) True 0 True (stub_world LIC True))))
   \<and> ''out/0/metaflow_bundle_adj_metadata.csv''
     \<in> set (output_locations (ToCsv ''out/0/metaflow_bundle_adj_metadata.csv'' stub_cameras))
   \<and> prefix (iteration_path (self (stub_world LIC True)) 0) ''out/0/metaflow_bundle_adj_metadata.csv''
   \<and> (1::nat) \<noteq> 0
   \<and> \<not> prefix (iteration_path (self (stub_world LIC True)) 1) ''out/0/metaflow_bundle_adj_metadata.csv''"
proof -
  let ?w = "stub_world LIC True"
  let ?P = "''out/0/metaflow_bundle_adj_metadata.csv''"
  let ?e = "ToCsv ?P stub_cameras :: int event"
  have mem: "?e \<in> set (trace (snd (iteration (stub_env 0) True 0 True ?w)))"
    unfolding stub_iteration_0
    by (simp add: stub_run_events_def stub_pipeline_unfold)
  have loc: "?P \<in> set (output_locations ?e)" by simp
  from iteration_outputs_namespaced [of "stub_env 0" True 0 True ?w] obtain es where
    es: "trace (snd (iteration (stub_env 0) True 0 True ?w)) = trace ?w @ es"
    and below: "\<forall>e \<in> set es. \<forall>path \<in> set (output_locations e).
             prefix (iteration_path (self ?w) 0) path
             \<or> (\<exists>df. e = ToCsv path df \<and> VStr path = input_images_metadata_file (self ?w))
             \<or> (\<exists>dem r v. e = Ext (ClipReferenceDem dem r path v))"
    and apart: "\<forall>j x. j \<noteq> 0 \<longrightarrow> prefix (iteration_path (self ?w) 0) x
          \<longrightarrow> \<not> prefix (iteration_path (self ?w) j) x"
    by blast
  from es mem have "?e \<in> set es" by (simp add: stub_world_fields)
  with below loc have "prefix (iteration_path (self ?w) 0) ?P
             \<or> (\<exists>df. ?e = ToCsv ?P df \<and> VStr ?P = input_images_metadata_file (self ?w))
             \<or> (\<exists>dem r v. ?e = Ext (ClipReferenceDem dem r ?P v))"
    by blast
  then have pre: "prefix (iteration_path (self ?w) 0) ?P"
    by (simp add: stub_world_fields stub_pipeline_fields)
  with apart have "\<not> prefix (iteration_path (self ?w) 1) ?P"
    by (metis One_nat_def n_not_Suc_n)
  with mem loc pre show ?thesis by simp
qed

text \<open>
  Claim C5 as stated fails: in iteration \<open>0\<close> on the test double the reference DEM is
  clipped to \<open>out/reference_dem_clipped.tif\<close> and the input snapshot \<open>cameras.csv\<close> is
  rewritten where it is, neither below \<open>out/0/\<close>.
\<close>

theorem clipped_reference_not_namespaced:
  "Ext (ClipReferenceDem (VStr ''dem.tif'') (VStr ''reference_dem.tif'')
          ''out/reference_dem_clipped.tif'' (VBool True))
     \<in> set (trace (snd (run_multi (stub_env 0) 1 True (stub_world LIC True))))
   \<and> ToCsv ''cameras.csv'' (zero_yaw_pitch_roll stub_input)
     \<in> set (trace (snd (run_multi (stub_env 0) 1 True (stub_world LIC True))))
   \<and> iteration_path (self (stub_world LIC True)) 0 = ''out/0/''
   \<and> \<not> prefix ''out/0/'' ''out/reference_dem_clipped.tif''
   \<and> \<not> prefix ''out/0/'' ''cameras.csv''"
proof (intro conjI)
  show "Ext (ClipReferenceDem (VStr ''dem.tif'') (VStr ''reference_dem.tif'')
          ''out/reference_dem_clipped.tif'' (VBool True))
     \<in> set (trace (snd (run_multi (stub_env 0) 1 True (stub_world LIC True))))"
    unfolding stub_run_multi_1
    by (simp add: stub_run_events_def stub_pipeline_unfold)
  show "ToCsv ''cameras.csv'' (zero_yaw_pitch_roll stub_input)
     \<in> set (trace (snd (run_multi (stub_env 0) 1 True (stub_world LIC True))))"
    unfolding stub_run_multi_1
    by (simp add: stub_run_events_def)
  show "iteration_path (self (stub_world LIC True)) 0 = ''out/0/''"
    by (simp add: stub_world_fields stub_iteration_path)
  show "\<not> prefix ''out/0/'' ''out/reference_dem_clipped.tif''"
    by simp
  show "\<not> prefix ''out/0/'' ''cameras.csv''"
    by simp
qed

section \<open>The reference DEM of the two alignment stages\<close>

text \<open>
  Claim C4, as amended. Each alignment stage makes its own footprint test, on the DEM it
  is given and in the world it runs in: the point-cloud alignment (step 5) on the
  extracted DEM \<open>dem\<close> in \<open>w\<close>, the co-registration (step 8) on the aligned DEM
  \<open>aligned\<close> in \<open>w'\<close>, a world of the same pipeline object. Let \<open>inside\<close> and
  \<open>inside'\<close> be the answers of the two tests and \<open>clipped\<close> what the clip helper
  returns or raises.

  \<^item> Step 5 reads the two footprints and then, when \<open>inside\<close>, clips the reference DEM
    to the configured clipped path and, unless the helper raises, aligns against the file
    the helper returned; when not \<open>inside\<close> it aligns against the full reference DEM.
    It calls nothing else.
  \<^item> Step 8, when step 5 clipped or step 8 finds no containment, reads the two footprints
    and then calls the co-registration helper once, with the configured clipped path when
    \<open>inside'\<close> and with the full reference DEM otherwise; it does not clip.
  \<^item> When the two tests give the same answer, and the clip helper returned the path it
    was asked to write, both stages align against the same single reference DEM: the
    configured clipped file when contained, the full reference DEM when not.

  Nothing is said of step 8 when step 5 did not clip and step 8 finds containment.
\<close>

theorem alignment_reference_choice:
  assumes b1: "ext env (RasterBounds (reference_dem (self w))) (fs w, outside w) = (Inr rb, s1)"
    and b2: "ext env (RasterBounds dem) s1 = (Inr db, s2)"
    and c: "contains env rb db = Inr inside"
    and clip: "ext env (ClipReferenceDem dem (reference_dem (self w))
                  (clipped_reference_dem_file (self w)) (verbose (self w))) s2 = (clipped, s3)"
    and p: "self w' = self w"
    and b1': "ext env (RasterBounds (reference_dem (self w))) (fs w', outside w') = (Inr rb', s1')"
    and b2': "ext env (RasterBounds aligned) s1' = (Inr ab, s2')"
    and c': "contains env rb' ab = Inr inside'"
  shows "trace (snd (pc_align_routine env dem w)) =
            trace w @ [Ext (RasterBounds (reference_dem (self w))), Ext (RasterBounds dem)]
              @ (if inside
                 then Ext (ClipReferenceDem dem (reference_dem (self w))
                             (clipped_reference_dem_file (self w)) (verbose (self w)))
                      # (case clipped of
                           Inl msg \<Rightarrow> []
                         | Inr clipped_reference_dem_file' \<Rightarrow>
                             [Ext (PcAlignP2pSp2p dem clipped_reference_dem_file'
                                     (output_path (self w)) (verbose (self w)))])
                 else [Ext (PcAlignP2pSp2p dem (reference_dem (self w))
                              (output_path (self w)) (verbose (self w)))])
   \<and> (inside \<or> \<not> inside' \<longrightarrow>
        trace (snd (nuth_kaab_align_routine env aligned w')) =
            trace w' @ [Ext (RasterBounds (reference_dem (self w))), Ext (RasterBounds aligned),
                        Ext (DemAlignCustom
                               (if inside' then VStr (clipped_reference_dem_file (self w))
                                else reference_dem (self w))
                               aligned (output_path (self w)) (verbose (self w)))])
   \<and> (inside = inside' \<and> (inside \<longrightarrow> clipped = Inr (VStr (clipped_reference_dem_file (self w))))
        \<longrightarrow> concat (map alignment_references
                     (drop (length (trace w)) (trace (snd (pc_align_routine env dem w)))))
              = [if inside then VStr (clipped_reference_dem_file (self w))
                 else reference_dem (self w)]
          \<and> concat (map alignment_references
                     (drop (length (trace w')) (trace (snd (nuth_kaab_align_routine env aligned w')))))
              = [if inside then VStr (clipped_reference_dem_file (self w))
                 else reference_dem (self w)])"
proof -
  obtain t1 o1 where s1: "s1 = (t1, o1)" by (cases s1)
  obtain t2 o2 where s2: "s2 = (t2, o2)" by (cases s2)
  obtain t3 o3 where s3: "s3 = (t3, o3)" by (cases s3)
  obtain t1' o1' where s1': "s1' = (t1', o1')" by (cases s1')
  obtain t2' o2' where s2': "s2' = (t2', o2')" by (cases s2')
  let ?ref = "reference_dem (self w)"
  let ?w2 = "w \<lparr> fs := t2, outside := o2,
                 trace := trace w @ [Ext (RasterBounds ?ref), Ext (RasterBounds dem)] \<rparr>"
  let ?w2' = "w' \<lparr> fs := t2', outside := o2',
                 trace := trace w' @ [Ext (RasterBounds ?ref), Ext (RasterBounds aligned)] \<rparr>"
  have rc: "reference_contains env dem w = (Inr inside, ?w2)"
    using b1 b2 c by (simp add: reference_contains_def action_defs s1 s2)
  have rc': "reference_contains env aligned w' = (Inr inside', ?w2')"
    using b1' b2' c' p by (simp add: reference_contains_def action_defs s1' s2')
  have nuth: "trace (snd (nuth_kaab_align_routine env aligned w')) =
            trace w' @ [Ext (RasterBounds ?ref), Ext (RasterBounds aligned),
                        Ext (DemAlignCustom
                               (if inside' then VStr (clipped_reference_dem_file (self w))
                                else ?ref)
                               aligned (output_path (self w)) (verbose (self w)))]"
    by (simp add: nuth_kaab_align_routine_def bind_def get_self_def rc' call_def p
          split: prod.splits)
  have pc: "trace (snd (pc_align_routine env dem w)) =
            trace w @ [Ext (RasterBounds ?ref), Ext (RasterBounds dem)]
              @ (if inside
                 then Ext (ClipReferenceDem dem ?ref
                             (clipped_reference_dem_file (self w)) (verbose (self w)))
                      # (case clipped of
                           Inl msg \<Rightarrow> []
                         | Inr clipped_reference_dem_file' \<Rightarrow>
                             [Ext (PcAlignP2pSp2p dem clipped_reference_dem_file'
                                     (output_path (self w)) (verbose (self w)))])
                 else [Ext (PcAlignP2pSp2p dem ?ref
                              (output_path (self w)) (verbose (self w)))])"
    using clip
    by (cases inside; cases clipped)
       (auto simp: pc_align_routine_def bind_def get_self_def rc call_def lift_def s2 s3
          split: prod.splits sum.splits)
  show ?thesis
    unfolding pc nuth by (cases inside; cases inside') auto
qed


text \<open>
  On the test double, where the reference footprint contains both the extracted and the
  aligned DEM and the clip helper returns the path it is given: step 5 clips and aligns
  against \<open>out/reference_dem_clipped.tif\<close>, and step 8 is handed the same file.
\<close>

theorem alignment_reference_choice_witness:
  "ext (stub_env 0) (RasterBounds (reference_dem (self (stub_world LIC True))))
       (fs (stub_world LIC True), outside (stub_world LIC True))
     = (Inr (VTuple [VInt 0, VInt 0, VInt 10, VInt 10]), (fs (stub_world LIC True), ()))
   \<and> ext (stub_env 0) (RasterBounds (VStr ''dem.tif'')) (fs (stub_world LIC True), ())
     = (Inr (VTuple [VInt 1, VInt 1, VInt 5, VInt 5]), (fs (stub_world LIC True), ()))
   \<and> ext (stub_env 0) (RasterBounds (VStr ''aligned.tif'')) (fs (stub_world LIC True), ())
     = (Inr (VTuple [VInt 1, VInt 1, VInt 5, VInt 5]), (fs (stub_world LIC True), ()))
   \<and> contains (stub_env 0) (VTuple [VInt 0, VInt 0, VInt 10, VInt 10])
        (VTuple [VInt 1, VInt 1, VInt 5, VInt 5]) = Inr True
   \<and> ext (stub_env 0)
        (ClipReferenceDem (VStr ''dem.tif'') (reference_dem (self (stub_world LIC True)))
           (clipped_reference_dem_file (self (stub_world LIC True)))
           (verbose (self (stub_world LIC True))))
        (fs (stub_world LIC True), ())
     = (Inr (VStr ''out/reference_dem_clipped.tif''), (fs (stub_world LIC True), ()))
   \<and> trace (snd (pc_align_routine (stub_env 0) (VStr ''dem.tif'') (stub_world LIC True)))
     = [Ext (RasterBounds (VStr ''reference_dem.tif'')), Ext (RasterBounds (VStr ''dem.tif'')),
        Ext (ClipReferenceDem (VStr ''dem.tif'') (VStr ''reference_dem.tif'')
               ''out/reference_dem_clipped.tif'' (VBool True)),
        Ext (PcAlignP2pSp2p (VStr ''dem.tif'') (VStr ''out/reference_dem_clipped.tif'') ''out''
               (VBool True))]
   \<and> trace (snd (nuth_kaab_align_routine (stub_env 0) (VStr ''aligned.tif'') (stub_world LIC True)))
     = [Ext (RasterBounds (VStr ''reference_dem.tif'')), Ext (RasterBounds (VStr ''aligned.tif'')),
        Ext (DemAlignCustom (VStr ''out/reference_dem_clipped.tif'') (VStr ''aligned.tif'') ''out''
               (VBool True))]
   \<and> concat (map alignment_references
        (drop (length (trace (stub_world LIC True)))
           (trace (snd (pc_align_routine (stub_env 0) (VStr ''dem.tif'') (stub_world LIC True))))))
     = [VStr ''out/reference_dem_clipped.tif'']
   \<and> concat (map alignment_references
        (drop (length (trace (stub_world LIC True)))
           (trace (snd (nuth_kaab_align_routine (stub_env 0) (VStr ''aligned.tif'')
                          (stub_world LIC True))))))
     = [VStr ''out/reference_dem_clipped.tif'']"
proof -
  let ?w = "stub_world LIC True"
  let ?rb = "VTuple [VInt 0, VInt 0, VInt 10, VInt 10] :: int val"
  let ?db = "VTuple [VInt 1, VInt 1, VInt 5, VInt 5] :: int val"
  have b1: "ext (stub_env 0) (RasterBounds (reference_dem (self ?w))) (fs ?w, outside ?w)
     = (Inr ?rb, (fs ?w, ()))"
    by (simp add: stub_ext_defs stub_bounds_def stub_world_fields stub_pipeline_fields)
  have b2: "ext (stub_env 0) (RasterBounds (VStr ''dem.tif'')) (fs ?w, ()) = (Inr ?db, (fs ?w, ()))"
    by (simp add: stub_ext_defs stub_bounds_def)
  have b2': "ext (stub_env 0) (RasterBounds (VStr ''aligned.tif'')) (fs ?w, ())
     = (Inr ?db, (fs ?w, ()))"
    by (simp add: stub_ext_defs stub_bounds_def)
  have c: "contains (stub_env 0) ?rb ?db = Inr True"
    by (simp add: stub_env_def stub_contains_def as_int_def)
  have clip: "ext (stub_env 0)
        (ClipReferenceDem (VStr ''dem.tif'') (reference_dem (self ?w))
           (clipped_reference_dem_file (self ?w)) (verbose (self ?w))) (fs ?w, ())
     = (Inr (VStr ''out/reference_dem_clipped.tif''), (fs ?w, ()))"
    by (simp add: stub_ext_defs stub_world_fields stub_pipeline_fields)
  have fields: "reference_dem (self ?w) = VStr ''reference_dem.tif''"
    "clipped_reference_dem_file (self ?w) = ''out/reference_dem_clipped.tif''"
    "output_path (self ?w) = ''out''" "verbose (self ?w) = VBool True" "trace ?w = []"
    by (simp_all add: stub_world_fields stub_pipeline_fields)
       (simp add: stub_pipeline_def init_pipeline_def)
  from alignment_reference_choice [OF b1 b2 c clip refl b1 b2' c]
  have "trace (snd (pc_align_routine (stub_env 0) (VStr ''dem.tif'') ?w))
     = [Ext (RasterBounds (VStr ''reference_dem.tif'')), Ext (RasterBounds (VStr ''dem.tif'')),
        Ext (ClipReferenceDem (VStr ''dem.tif'') (VStr ''reference_dem.tif'')
               ''out/reference_dem_clipped.tif'' (VBool True)),
        Ext (PcAlignP2pSp2p (VStr ''dem.tif'') (VStr ''out/reference_dem_clipped.tif'') ''out''
               (VBool True))]
   \<and> trace (snd (nuth_kaab_align_routine (stub_env 0) (VStr ''aligned.tif'') ?w))
     = [Ext (RasterBounds (VStr ''reference_dem.tif'')), Ext (RasterBounds (VStr ''aligned.tif'')),
        Ext (DemAlignCustom (VStr ''out/reference_dem_clipped.tif'') (VStr ''aligned.tif'') ''out''
               (VBool True))]
   \<and> concat (map alignment_references
        (drop (length (trace ?w))
           (trace (snd (pc_align_routine (stub_env 0) (VStr ''dem.tif'') ?w)))))
     = [VStr ''out/reference_dem_clipped.tif'']
   \<and> concat (map alignment_references
        (drop (length (trace ?w))
           (trace (snd (nuth_kaab_align_routine (stub_env 0) (VStr ''aligned.tif'') ?w)))))
     = [VStr ''out/reference_dem_clipped.tif'']"
    unfolding fields by simp
  with b1 b2 b2' c clip show ?thesis by blast
qed

text \<open>
  Claim C4 as stated fails: with the aligned DEM moved east by \<open>7\<close>, out of the
  reference footprint, the reference footprint contains the extracted DEM's footprint at
  the point-cloud alignment, which clips the reference DEM, and yet the co-registration of
  the same run is handed the full reference DEM.
\<close>

theorem clipping_decisions_differ:
  "stub_contains (stub_bounds 7 (VStr ''reference_dem.tif'')) (stub_bounds 7 (VStr ''dem.tif''))
     = Inr True
   \<and> Ext (ClipReferenceDem (VStr ''dem.tif'') (VStr ''reference_dem.tif'')
            ''out/reference_dem_clipped.tif'' (VBool True))
     \<in> set (trace (snd (run (stub_env 7) True True (stub_world LIC True))))
   \<and> Ext (DemAlignCustom (VStr ''reference_dem.tif'') (VStr ''aligned.tif'') ''out'' (VBool True))
     \<in> set (trace (snd (run (stub_env 7) True True (stub_world LIC True))))"
proof (intro conjI)
  show "stub_contains (stub_bounds 7 (VStr ''reference_dem.tif'')) (stub_bounds 7 (VStr ''dem.tif''))
     = Inr True"
    by (simp add: stub_contains_def stub_bounds_def as_int_def)
  show "Ext (ClipReferenceDem (VStr ''dem.tif'') (VStr ''reference_dem.tif'')
            ''out/reference_dem_clipped.tif'' (VBool True))
     \<in> set (trace (snd (run (stub_env 7) True True (stub_world LIC True))))"
    unfolding stub_run_world
    by (simp add: stub_run_events_def stub_pipeline_def init_pipeline_def path_join_def)
  show "Ext (DemAlignCustom (VStr ''reference_dem.tif'') (VStr ''aligned.tif'') ''out'' (VBool True))
     \<in> set (trace (snd (run (stub_env 7) True True (stub_world LIC True))))"
    unfolding stub_run_world
    by (simp add: stub_run_events_def stub_pipeline_def init_pipeline_def path_join_def)
qed

section \<open>Which tables a run writes\<close>






section \<open>Headings: the last record repeats the previous heading\<close>

lemma try_heading_inside:
  assumes "length lons = length lats" and "i + 1 < length lats"
  shows "try_heading calc lons lats i =
           calc (lons ! i) (lats ! i) (lons ! (i + 1)) (lats ! (i + 1))"
  using assms by (simp add: try_heading_def np_get_def)

lemma try_heading_last:
  assumes "length lons = length lats" and "i + 1 = length lats"
  shows "try_heading calc lons lats i = Inl IndexError"
  using assms by (simp add: try_heading_def np_get_def)

lemma heading_loop_prefix:
  assumes len: "length lons = length lats"
    and ok: "\<forall>i. i + 1 < length lats \<longrightarrow>
               calc (lons ! i) (lats ! i) (lons ! (i + 1)) (lats ! (i + 1)) = Inr (h i)"
    and inside: "\<forall>i \<in> set idx. i + 1 < length lats"
  shows "heading_loop calc lons lats (idx @ rest) heading headings =
           heading_loop calc lons lats rest
             (if idx = [] then heading else Some (h (last idx))) (headings @ map h idx)"
  using inside
proof (induction idx arbitrary: heading headings)
  case Nil
  show ?case by simp
next
  case (Cons i idx)
  have "try_heading calc lons lats i = Inr (h i)"
    using Cons.prems len ok by (simp add: try_heading_inside)
  moreover have "\<forall>j \<in> set idx. j + 1 < length lats"
    using Cons.prems by simp
  ultimately show ?case
    using Cons.IH [of "Some (h i)" "headings @ [h i]"] by simp
qed

lemma calculate_heading_explicit:
  assumes len: "length lons = length lats"
    and two: "2 \<le> length lats"
    and ok: "\<forall>i. i + 1 < length lats \<longrightarrow>
               calc (lons ! i) (lats ! i) (lons ! (i + 1)) (lats ! (i + 1)) = Inr (h i)"
  shows "calculate_heading_from_metadata calc lons lats =
           Inr (map h [0..<length lats - 1] @ [h (length lats - 2)])"
proof -
  define n where "n = length lats - 1"
  have n: "length lats = Suc n" and n1: "1 \<le> n"
    using two by (simp_all add: n_def)
  have idx: "[0..<length lats] = [0..<n] @ [n]"
    by (simp add: n)
  have inside: "\<forall>i \<in> set [0..<n]. i + 1 < length lats"
    by (simp add: n)
  have nonempty: "[0..<n] \<noteq> []" and lst: "last [0..<n] = n - 1"
    using n1 by simp_all
  have fin: "try_heading calc lons lats n = Inl IndexError"
    using len by (simp add: try_heading_last n)
  have "heading_loop calc lons lats ([0..<n] @ [n]) None [] =
          heading_loop calc lons lats [n]
            (if [0..<n] = [] then None else Some (h (last [0..<n]))) ([] @ map h [0..<n])"
    by (rule heading_loop_prefix [OF len ok inside])
  then have "calculate_heading_from_metadata calc lons lats =
          heading_loop calc lons lats [n] (Some (h (n - 1))) (map h [0..<n])"
    unfolding calculate_heading_from_metadata_def idx
    by (simp only: nonempty lst if_False append_Nil)
  also have "\<dots> = Inr (map h [0..<n] @ [h (n - 1)])"
    by (simp add: fin)
  finally have "calculate_heading_from_metadata calc lons lats =
                 Inr (map h [0..<n] @ [h (n - 1)])" .
  moreover have "n - 1 = length lats - 2"
    by (simp add: n_def)
  ultimately show ?thesis
    by (simp only: n_def)
qed

text \<open>
  Claim C9. For a table with at least two records whose pairwise heading computations all
  succeed, \<open>calculate_heading_from_metadata\<close> returns one heading per record, and the
  heading of the last record equals the heading of the record before it.
\<close>

theorem last_heading_repeats_previous:
  assumes "length lons = length lats"
    and "2 \<le> length lats"
    and "\<forall>i. i + 1 < length lats \<longrightarrow>
           (\<exists>h. calc (lons ! i) (lats ! i) (lons ! (i + 1)) (lats ! (i + 1)) = Inr h)"
  shows "\<exists>hs. calculate_heading_from_metadata calc lons lats = Inr hs
           \<and> length hs = length lats
           \<and> hs ! (length lats - 1) = hs ! (length lats - 2)"
proof -
  from assms(3) obtain h where
    h: "\<forall>i. i + 1 < length lats \<longrightarrow>
          calc (lons ! i) (lats ! i) (lons ! (i + 1)) (lats ! (i + 1)) = Inr (h i)"
    by metis
  let ?hs = "map h [0..<length lats - 1] @ [h (length lats - 2)]"
  have res: "calculate_heading_from_metadata calc lons lats = Inr ?hs"
    by (rule calculate_heading_explicit [OF assms(1) assms(2) h])
  have len: "length ?hs = length lats"
    using assms(2) by simp
  have lst: "?hs ! (length lats - 1) = h (length lats - 2)"
    by (simp add: nth_append)
  have prev: "?hs ! (length lats - 2) = h (length lats - 2)"
    using assms(2) by (simp add: nth_append)
  show ?thesis
    using res len lst prev by simp
qed

text \<open>
  A run on three records, with the heading of a pair taken to be the difference of the
  two longitudes: the headings are \<open>[10, 5, 5]\<close>.
\<close>

theorem last_heading_repeats_previous_witness:
  "\<exists>hs. calculate_heading_from_metadata (\<lambda>a b c d. Inr (c - a)) [0, 10, 15 :: int] [1, 2, 3 :: int]
          = Inr hs
        \<and> length hs = 3 \<and> hs ! 2 = hs ! 1"
  using last_heading_repeats_previous
    [of "[0, 10, 15 :: int]" "[1, 2, 3 :: int]" "\<lambda>a b c d. Inr (c - a)"]
  by (simp add: eval_nat_numeral)

end
